theory Spec2Isabelle
  imports Main "HOL-Library.Word"
begin

section \<open>Arduino primitives used by the sketches\<close>

text \<open>
  \<^verbatim>\<open>millis()\<close> returns an \<^verbatim>\<open>unsigned long\<close>, 32 bits wide on the ESP32: differences of
  two readings wrap around, and comparisons are unsigned. Servo angles are C \<^verbatim>\<open>int\<close>s;
  they are modelled as \<open>int\<close>: every sum and difference the sketches form over
  positions and targets stays between \<open>-180\<close> and \<open>190\<close> once these lie inside the
  servo bounds. The two computations on numbers taken from a request body, \<^verbatim>\<open>map\<close> and
  the person count of \<^verbatim>\<open>sketch_aug2a\<close>, carry the 32-bit wrap-around explicitly.
\<close>

type_synonym millis_t = "32 word"

text \<open>The macro \<^verbatim>\<open>constrain(amt, low, high)\<close> of Arduino.h.\<close>

definition constrain :: "int \<Rightarrow> int \<Rightarrow> int \<Rightarrow> int" where
  "constrain amt low high = (if amt < low then low else if amt > high then high else amt)"

section \<open>Servo state (FastLED sketch, \<^verbatim>\<open>src/unnamed/part_000\<close>; the same text in \<^verbatim>\<open>part_001\<close>)\<close>

text \<open>
  \<^verbatim>\<open>struct ServoState\<close>. The six numeric fields are also the whole struct of
  \<^verbatim>\<open>sketch_aug2a.ino\<close>, which has no \<^verbatim>\<open>name\<close>; the record is split accordingly.
\<close>

record ServoCore =
  currentPos :: int
  targetPos :: int
  lastMoveTime :: millis_t
  moving :: bool
  minPos :: int
  maxPos :: int

record ServoState = ServoCore +
  name :: string

definition SERVO_STEP_SIZE :: int where
  "SERVO_STEP_SIZE = 2"

text \<open>\<^verbatim>\<open>const int SERVO_MOVE_DELAY = 25\<close>, converted to \<^verbatim>\<open>unsigned long\<close> where it is compared.\<close>

definition SERVO_MOVE_DELAY :: millis_t where
  "SERVO_MOVE_DELAY = 25"

definition EMOTION_MODE_DURATION :: millis_t where
  "EMOTION_MODE_DURATION = 12000"

text \<open>
  \<^verbatim>\<open>moveServoSafely(Servo &servo, ServoState &state, int targetAngle)\<close>. The servo
  argument is never used in the body; the debug print is left out.
\<close>

definition moveServoSafely :: "ServoState \<Rightarrow> int \<Rightarrow> ServoState" where
  "moveServoSafely state targetAngle =
     (let safeAngle = constrain targetAngle (minPos state) (maxPos state)
      in if \<bar>targetPos state - safeAngle\<bar> > 2
         then state\<lparr>targetPos := safeAngle, moving := True\<rparr>
         else state)"

section \<open>Global state of the FastLED sketch\<close>

text \<open>
  The globals the request pipeline and the servo scheduler read or write. The three
  \<^verbatim>\<open>Servo\<close> objects are represented by the last angle passed to \<^verbatim>\<open>write\<close>. The
  \<^verbatim>\<open>static\<close> locals of the person-count branch of \<^verbatim>\<open>processPendingRequests\<close> are
  \<open>sweepLastMoveTime\<close>, \<open>currentDirection\<close> and \<open>movementSpeed\<close>. Displays, the LED
  strip, the blink timer, WiFi and the serial log are outputs only and are left out.
\<close>

record robot =
  current_emotion :: string
  current_sentiment :: string
  emotion_mode_active :: bool
  head_tracking_enabled :: bool
  pendingEmotion :: bool
  pendingEmotionValue :: string
  pendingHead :: bool
  pendingHeadNumber :: int
  pendingHeadAngle :: int
  pendingReset :: bool
  resetAcknowledged :: bool
  resetStartTime :: millis_t
  headState :: ServoState
  leftArmState :: ServoState
  rightArmState :: ServoState
  headServo :: int
  leftArmServo :: int
  rightArmServo :: int
  emotion_mode_start :: millis_t
  sweepLastMoveTime :: millis_t
  currentDirection :: int
  movementSpeed :: int

text \<open>The initialisers of the globals, followed by the assignments of \<^verbatim>\<open>setup()\<close>.\<close>

definition init_robot :: robot where
  "init_robot =
     \<lparr>current_emotion = ''happy'', current_sentiment = ''happy'',
      emotion_mode_active = False, head_tracking_enabled = True,
      pendingEmotion = False, pendingEmotionValue = '''',
      pendingHead = False, pendingHeadNumber = -1, pendingHeadAngle = -1,
      pendingReset = False, resetAcknowledged = False, resetStartTime = 0,
      headState = \<lparr>currentPos = 90, targetPos = 90, lastMoveTime = 0, moving = False,
                   minPos = 45, maxPos = 135, name = ''HEAD''\<rparr>,
      leftArmState = \<lparr>currentPos = 180, targetPos = 180, lastMoveTime = 0, moving = False,
                      minPos = 0, maxPos = 180, name = ''LEFT_ARM''\<rparr>,
      rightArmState = \<lparr>currentPos = 0, targetPos = 0, lastMoveTime = 0, moving = False,
                       minPos = 0, maxPos = 180, name = ''RIGHT_ARM''\<rparr>,
      headServo = 90, leftArmServo = 180, rightArmServo = 0,
      emotion_mode_start = 0, sweepLastMoveTime = 0, currentDirection = 1,
      movementSpeed = 5\<rparr>"

section \<open>\<^verbatim>\<open>updateServoPositions\<close>\<close>

text \<open>
  The function reads \<^verbatim>\<open>millis()\<close> once and runs three blocks, one per servo, each
  written out over its own global. The blocks are kept apart here as in the source. In
  each block \<open>pos\<close> is the value assigned to \<^verbatim>\<open>currentPos\<close> (unchanged when it equals
  the target), \<open>written\<close> the angle the \<^verbatim>\<open>Servo\<close> object holds after the guarded
  \<^verbatim>\<open>write\<close>, and \<open>mov\<close> the flag after the final test.
\<close>

definition updateServoPositions_head :: "millis_t \<Rightarrow> robot \<Rightarrow> robot" where
  "updateServoPositions_head now s =
     (if moving (headState s) \<and> now - lastMoveTime (headState s) \<ge> SERVO_MOVE_DELAY then
        let pos = (if currentPos (headState s) < targetPos (headState s)
                   then min (currentPos (headState s) + SERVO_STEP_SIZE) (targetPos (headState s))
                   else if currentPos (headState s) > targetPos (headState s)
                   then max (currentPos (headState s) - SERVO_STEP_SIZE) (targetPos (headState s))
                   else currentPos (headState s));
            written = (if pos \<ge> minPos (headState s) \<and> pos \<le> maxPos (headState s)
                       then pos else headServo s);
            mov = (if pos = targetPos (headState s) then False else moving (headState s))
        in s\<lparr>headState := (headState s)\<lparr>currentPos := pos, lastMoveTime := now, moving := mov\<rparr>,
             headServo := written\<rparr>
      else s)"

definition updateServoPositions_leftArm :: "millis_t \<Rightarrow> robot \<Rightarrow> robot" where
  "updateServoPositions_leftArm now s =
     (if moving (leftArmState s) \<and> now - lastMoveTime (leftArmState s) \<ge> SERVO_MOVE_DELAY then
        let pos = (if currentPos (leftArmState s) < targetPos (leftArmState s)
                   then min (currentPos (leftArmState s) + SERVO_STEP_SIZE) (targetPos (leftArmState s))
                   else if currentPos (leftArmState s) > targetPos (leftArmState s)
                   then max (currentPos (leftArmState s) - SERVO_STEP_SIZE) (targetPos (leftArmState s))
                   else currentPos (leftArmState s));
            written = (if pos \<ge> minPos (leftArmState s) \<and> pos \<le> maxPos (leftArmState s)
                       then pos else leftArmServo s);
            mov = (if pos = targetPos (leftArmState s) then False else moving (leftArmState s))
        in s\<lparr>leftArmState := (leftArmState s)\<lparr>currentPos := pos, lastMoveTime := now, moving := mov\<rparr>,
             leftArmServo := written\<rparr>
      else s)"

definition updateServoPositions_rightArm :: "millis_t \<Rightarrow> robot \<Rightarrow> robot" where
  "updateServoPositions_rightArm now s =
     (if moving (rightArmState s) \<and> now - lastMoveTime (rightArmState s) \<ge> SERVO_MOVE_DELAY then
        let pos = (if currentPos (rightArmState s) < targetPos (rightArmState s)
                   then min (currentPos (rightArmState s) + SERVO_STEP_SIZE) (targetPos (rightArmState s))
                   else if currentPos (rightArmState s) > targetPos (rightArmState s)
                   then max (currentPos (rightArmState s) - SERVO_STEP_SIZE) (targetPos (rightArmState s))
                   else currentPos (rightArmState s));
            written = (if pos \<ge> minPos (rightArmState s) \<and> pos \<le> maxPos (rightArmState s)
                       then pos else rightArmServo s);
            mov = (if pos = targetPos (rightArmState s) then False else moving (rightArmState s))
        in s\<lparr>rightArmState := (rightArmState s)\<lparr>currentPos := pos, lastMoveTime := now, moving := mov\<rparr>,
             rightArmServo := written\<rparr>
      else s)"

definition updateServoPositions :: "millis_t \<Rightarrow> robot \<Rightarrow> robot" where
  "updateServoPositions now s =
     updateServoPositions_rightArm now
       (updateServoPositions_leftArm now (updateServoPositions_head now s))"

section \<open>Axes, and sequences of servo calls\<close>

datatype axis = Head | LeftArm | RightArm

fun axisState :: "axis \<Rightarrow> robot \<Rightarrow> ServoState" where
  "axisState Head s = headState s"
| "axisState LeftArm s = leftArmState s"
| "axisState RightArm s = rightArmState s"

fun axisServo :: "axis \<Rightarrow> robot \<Rightarrow> int" where
  "axisServo Head s = headServo s"
| "axisServo LeftArm s = leftArmServo s"
| "axisServo RightArm s = rightArmServo s"

text \<open>The call \<^verbatim>\<open>moveServoSafely(headServo, headState, a)\<close> and its two siblings.\<close>

fun requestMove :: "axis \<Rightarrow> int \<Rightarrow> robot \<Rightarrow> robot" where
  "requestMove Head a s = s\<lparr>headState := moveServoSafely (headState s) a\<rparr>"
| "requestMove LeftArm a s = s\<lparr>leftArmState := moveServoSafely (leftArmState s) a\<rparr>"
| "requestMove RightArm a s = s\<lparr>rightArmState := moveServoSafely (rightArmState s) a\<rparr>"

fun updateServoBlock :: "axis \<Rightarrow> millis_t \<Rightarrow> robot \<Rightarrow> robot" where
  "updateServoBlock Head = updateServoPositions_head"
| "updateServoBlock LeftArm = updateServoPositions_leftArm"
| "updateServoBlock RightArm = updateServoPositions_rightArm"

text \<open>
  A servo call is either a request on one axis or one run of \<^verbatim>\<open>updateServoPositions\<close>
  at the clock reading given.
\<close>

datatype servo_call = MoveServoSafely axis int | UpdateServoPositions millis_t

fun servo_exec :: "robot \<Rightarrow> servo_call \<Rightarrow> robot" where
  "servo_exec s (MoveServoSafely ax a) = requestMove ax a s"
| "servo_exec s (UpdateServoPositions now) = updateServoPositions now s"

definition servo_run :: "servo_call list \<Rightarrow> robot \<Rightarrow> robot" where
  "servo_run cs s = foldl servo_exec s cs"

text \<open>
  What one block does to its own \<^verbatim>\<open>ServoState\<close>, as a function of that state and the
  clock alone, and the angle it leaves in the \<^verbatim>\<open>Servo\<close> object.
\<close>

definition stepAxis :: "millis_t \<Rightarrow> ServoState \<Rightarrow> ServoState" where
  "stepAxis now st =
     (if moving st \<and> now - lastMoveTime st \<ge> SERVO_MOVE_DELAY then
        let pos = (if currentPos st < targetPos st then min (currentPos st + SERVO_STEP_SIZE) (targetPos st)
                   else if currentPos st > targetPos st then max (currentPos st - SERVO_STEP_SIZE) (targetPos st)
                   else currentPos st)
        in st\<lparr>currentPos := pos, lastMoveTime := now,
              moving := (if pos = targetPos st then False else moving st)\<rparr>
      else st)"

definition stepServo :: "millis_t \<Rightarrow> ServoState \<Rightarrow> int \<Rightarrow> int" where
  "stepServo now st out =
     (if moving st \<and> now - lastMoveTime st \<ge> SERVO_MOVE_DELAY then
        if currentPos (stepAxis now st) \<ge> minPos st \<and> currentPos (stepAxis now st) \<le> maxPos st
        then currentPos (stepAxis now st) else out
      else out)"

text \<open>
  A list of clock readings is due for an axis when each reading is at least
  \<^verbatim>\<open>SERVO_MOVE_DELAY\<close> after the axis's \<^verbatim>\<open>lastMoveTime\<close> at that call.
\<close>

fun all_due :: "axis \<Rightarrow> robot \<Rightarrow> millis_t list \<Rightarrow> bool" where
  "all_due ax s [] = True"
| "all_due ax s (t # ts) =
     (t - lastMoveTime (axisState ax s) \<ge> SERVO_MOVE_DELAY \<and> all_due ax (updateServoPositions t s) ts)"

definition ticks :: "millis_t list \<Rightarrow> robot \<Rightarrow> robot" where
  "ticks ts s = foldl (\<lambda>s t. updateServoPositions t s) s ts"

definition axis_ok :: "ServoState \<Rightarrow> bool" where
  "axis_ok st = (minPos st \<le> maxPos st
     \<and> minPos st \<le> currentPos st \<and> currentPos st \<le> maxPos st
     \<and> minPos st \<le> targetPos st \<and> targetPos st \<le> maxPos st)"

definition robot_ok :: "robot \<Rightarrow> bool" where
  "robot_ok s = (axis_ok (headState s) \<and> axis_ok (leftArmState s) \<and> axis_ok (rightArmState s))"


section \<open>Requests and responses\<close>

text \<open>
  The JSON library is outside the repository. A parsed value is represented by what the
  two accessors the handlers call return on it, \<^verbatim>\<open>as<int>()\<close> and \<^verbatim>\<open>as<String>()\<close>; a
  document by its members (\<^verbatim>\<open>containsKey\<close> is definedness); a body that
  \<^verbatim>\<open>deserializeJson\<close> rejects by the error text.
\<close>

record JsonVariant =
  as_int :: int
  as_String :: string

type_synonym JsonDocument = "string \<rightharpoonup> JsonVariant"

datatype body = Malformed string | Parsed JsonDocument

text \<open>
  A response is the status code passed to \<^verbatim>\<open>request->send\<close> and the members of the JSON
  object in its body, in the order the handler concatenates them.
\<close>

datatype jmember = JStr string | JNum int | JBool bool

datatype response = Response nat "(string \<times> jmember) list"

text \<open>
  \<^verbatim>\<open>String::toLowerCase\<close> applies C's \<^verbatim>\<open>tolower\<close> to every byte: the letters
  \<^verbatim>\<open>A\<close> to \<^verbatim>\<open>Z\<close> (codes 65 to 90) move up by 32, every other byte stays.
\<close>

definition tolower :: "char \<Rightarrow> char" where
  "tolower c = (let n = (of_char c :: nat) in if 65 \<le> n \<and> n \<le> 90 then char_of (n + 32) else c)"

definition toLowerCase :: "string \<Rightarrow> string" where
  "toLowerCase str = map tolower str"

text \<open>
  \<^verbatim>\<open>long map(long x, long in_min, long in_max, long out_min, long out_max)\<close> of the
  ESP32 Arduino core (\<^verbatim>\<open>WMath.cpp\<close>), which the sketch calls and does not define:
  it returns \<open>-1\<close> for an empty input range and otherwise
  \<^verbatim>\<open>(x - in_min) * (out_max - out_min) / (in_max - in_min) + out_min\<close>. A \<^verbatim>\<open>long\<close> has
  32 bits on this target; \<open>wrap_long\<close> is the two's complement wrap-around of every
  intermediate result and \<open>c_div\<close> is C's division, which truncates towards zero.
\<close>

definition wrap_long :: "int \<Rightarrow> int" where
  "wrap_long v = (v + 2147483648) mod 4294967296 - 2147483648"

definition c_div :: "int \<Rightarrow> int \<Rightarrow> int" where
  "c_div a b = sgn a * sgn b * (\<bar>a\<bar> div \<bar>b\<bar>)"

definition arduino_map :: "int \<Rightarrow> int \<Rightarrow> int \<Rightarrow> int \<Rightarrow> int \<Rightarrow> int" where
  "arduino_map x in_min in_max out_min out_max =
     (let run = wrap_long (in_max - in_min) in
      if run = 0 then -1
      else let rise = wrap_long (out_max - out_min);
               delta = wrap_long (x - in_min)
           in wrap_long (wrap_long (c_div (wrap_long (delta * rise)) run) + out_min))"

section \<open>Web server handlers of the FastLED sketch\<close>

text \<open>\<^verbatim>\<open>onReceiveHandler\<close>: the \<^verbatim>\<open>/receive\<close> body handler.\<close>

definition onReceiveHandler :: "body \<Rightarrow> robot \<Rightarrow> response \<times> robot" where
  "onReceiveHandler b s =
     (case b of
        Malformed err \<Rightarrow> (Response 400 [(''error'', JStr ''invalid_json'')], s)
      | Parsed doc \<Rightarrow>
          (case doc ''sentiment'' of
             None \<Rightarrow> (Response 400 [(''error'', JStr ''missing_sentiment'')], s)
           | Some v \<Rightarrow>
               let sentiment = toLowerCase (as_String v) in
               (Response 200 [(''status'', JStr ''emotion_queued''), (''emotion'', JStr sentiment)],
                s\<lparr>pendingEmotionValue := sentiment, pendingEmotion := True\<rparr>)))"

text \<open>\<^verbatim>\<open>onHeadHandler\<close>: the \<^verbatim>\<open>/head\<close> body handler; the test for \<^verbatim>\<open>number\<close> comes first.\<close>

definition onHeadHandler :: "body \<Rightarrow> robot \<Rightarrow> response \<times> robot" where
  "onHeadHandler b s =
     (case b of
        Malformed err \<Rightarrow>
          (Response 400 [(''error'', JStr ''invalid_json''), (''details'', JStr err)], s)
      | Parsed doc \<Rightarrow>
          (case doc ''number'' of
             Some v \<Rightarrow>
               let number = as_int v in
               (Response 200 [(''status'', JStr ''head_number_queued''), (''number'', JNum number)],
                s\<lparr>pendingHeadNumber := number, pendingHeadAngle := -1, pendingHead := True\<rparr>)
           | None \<Rightarrow>
               (case doc ''angle'' of
                  Some v \<Rightarrow>
                    let angle = as_int v in
                    (Response 200 [(''status'', JStr ''head_angle_queued''), (''angle'', JNum angle)],
                     s\<lparr>pendingHeadAngle := angle, pendingHeadNumber := -1, pendingHead := True\<rparr>)
                | None \<Rightarrow> (Response 400 [(''error'', JStr ''missing_number_or_angle'')], s))))"

text \<open>
  \<^verbatim>\<open>onHeadPositionHandler\<close>: \<open>headPositionAngle\<close> is its local \<^verbatim>\<open>headAngle\<close>, computed
  before the emotion-mode test.
\<close>

definition headPositionAngle :: "robot \<Rightarrow> int \<Rightarrow> int \<Rightarrow> int" where
  "headPositionAngle s personX frameWidth =
     arduino_map personX 0 frameWidth (minPos (headState s)) (maxPos (headState s))"

definition onHeadPositionHandler :: "body \<Rightarrow> robot \<Rightarrow> response \<times> robot" where
  "onHeadPositionHandler b s =
     (case b of
        Malformed err \<Rightarrow> (Response 400 [(''error'', JStr ''invalid_json'')], s)
      | Parsed doc \<Rightarrow>
          (case (doc ''x'', doc ''frame_width'') of
             (Some vx, Some vw) \<Rightarrow>
               let personX = as_int vx;
                   frameWidth = as_int vw;
                   headAngle = headPositionAngle s personX frameWidth
               in if \<not> emotion_mode_active s \<and> head_tracking_enabled s
                  then (Response 200 [(''status'', JStr ''head_position_queued''), (''angle'', JNum headAngle)],
                        s\<lparr>pendingHeadAngle := headAngle, pendingHeadNumber := -1, pendingHead := True\<rparr>)
                  else (Response 200 [(''status'', JStr ''ignored_emotion_mode'')], s)
           | _ \<Rightarrow> (Response 400 [(''error'', JStr ''missing_x_or_frame_width'')], s)))"

definition onResetHandler :: "robot \<Rightarrow> response \<times> robot" where
  "onResetHandler s =
     (Response 200 [(''status'', JStr ''reset_acknowledged''), (''delay'', JStr ''5_seconds'')],
      s\<lparr>pendingReset := True\<rparr>)"

text \<open>
  \<^verbatim>\<open>onStatusHandler\<close>. The members that come from the displays, the LED strip, WiFi, the
  blink timer, the heap and the clock are read from \<open>hardware\<close>.
\<close>

record hardware =
  left_oled :: bool
  right_oled :: bool
  led_strip :: bool
  wifi_connected :: bool
  eyes_open :: bool
  blinking :: bool
  free_heap :: int
  uptime :: int

definition onStatusHandler :: "hardware \<Rightarrow> robot \<Rightarrow> response" where
  "onStatusHandler hw s =
     Response 200
       [(''emotion'', JStr (current_emotion s)),
        (''sentiment'', JStr (current_sentiment s)),
        (''head_pos'', JNum (currentPos (headState s))),
        (''left_arm_pos'', JNum (currentPos (leftArmState s))),
        (''right_arm_pos'', JNum (currentPos (rightArmState s))),
        (''emotion_mode'', JBool (emotion_mode_active s)),
        (''head_tracking'', JBool (head_tracking_enabled s)),
        (''left_oled'', JBool (left_oled hw)),
        (''right_oled'', JBool (right_oled hw)),
        (''led_strip'', JBool (led_strip hw)),
        (''wifi_connected'', JBool (wifi_connected hw)),
        (''eyes_open'', JBool (eyes_open hw)),
        (''blinking'', JBool (blinking hw)),
        (''reset_pending'', JBool (resetAcknowledged s)),
        (''free_heap'', JNum (free_heap hw)),
        (''uptime'', JNum (uptime hw))]"

section \<open>\<^verbatim>\<open>processPendingRequests\<close> of the FastLED sketch\<close>

text \<open>
  What the function reads from outside the state: the values \<^verbatim>\<open>millis()\<close> returns where
  the reset is acknowledged (\<open>t_ack\<close>), where its delay is measured (\<open>t_elapsed\<close>), where
  emotion mode starts (\<open>t_emotion\<close>) and in the person-count branch (\<open>t_head\<close>); the
  value of \<^verbatim>\<open>random(0, 100)\<close>; and the content of the local \<^verbatim>\<open>newAngle\<close>, which is
  read without having been assigned when the person count is below \<open>-1\<close>.
\<close>

record readings =
  t_ack :: millis_t
  t_elapsed :: millis_t
  t_emotion :: millis_t
  t_head :: millis_t
  rnd :: int
  uninit :: int

text \<open>
  The three read-and-clear sections between \<^verbatim>\<open>noInterrupts()\<close> and \<^verbatim>\<open>interrupts()\<close>,
  each with the test that guards it. A drain returns the payload it copied out, if any.
\<close>

definition drainReset :: "millis_t \<Rightarrow> robot \<Rightarrow> bool \<times> robot" where
  "drainReset t s =
     (if pendingReset s \<and> \<not> resetAcknowledged s
      then (True, s\<lparr>resetAcknowledged := True, resetStartTime := t, pendingReset := False\<rparr>)
      else (False, s))"

definition drainEmotion :: "robot \<Rightarrow> string option \<times> robot" where
  "drainEmotion s =
     (if pendingEmotion s
      then (Some (pendingEmotionValue s), s\<lparr>pendingEmotion := False, pendingEmotionValue := ''''\<rparr>)
      else (None, s))"

definition drainHead :: "robot \<Rightarrow> (int \<times> int) option \<times> robot" where
  "drainHead s =
     (if pendingHead s
      then (Some (pendingHeadNumber s, pendingHeadAngle s),
            s\<lparr>pendingHead := False, pendingHeadNumber := -1, pendingHeadAngle := -1\<rparr>)
      else (None, s))"

text \<open>The neutral pose, requested in this order by the reset and by the time-out.\<close>

definition neutralPose :: "robot \<Rightarrow> robot" where
  "neutralPose s = requestMove RightArm 0 (requestMove LeftArm 180 (requestMove Head 90 s))"

text \<open>The reset: acknowledged first, executed once five seconds have passed.\<close>

definition processPendingRequests_reset :: "readings \<Rightarrow> robot \<Rightarrow> robot" where
  "processPendingRequests_reset r s =
     (let s1 = snd (drainReset (t_ack r) s) in
      if resetAcknowledged s1 then
        let elapsed = t_elapsed r - resetStartTime s1 in
        if elapsed \<ge> 5000
        then neutralPose (s1\<lparr>resetAcknowledged := False,
                              current_emotion := ''happy'', current_sentiment := ''happy'',
                              emotion_mode_active := False, head_tracking_enabled := True\<rparr>)
        else s1
      else s1)"

text \<open>The pose table of the emotion branch; each row requests left arm, right arm, head.\<close>

definition emotionPose :: "string \<Rightarrow> robot \<Rightarrow> robot" where
  "emotionPose emotion s =
     (if emotion = ''sad'' \<or> emotion = ''sadness'' \<or> emotion = ''fear'' \<or> emotion = ''scared''
      then requestMove Head 70 (requestMove RightArm 90 (requestMove LeftArm 90 s))
      else if emotion = ''angry'' \<or> emotion = ''anger''
      then requestMove Head 95 (requestMove RightArm 135 (requestMove LeftArm 45 s))
      else if emotion = ''surprise'' \<or> emotion = ''surprised''
      then requestMove Head 85 (requestMove RightArm 60 (requestMove LeftArm 120 s))
      else if emotion = ''happy'' \<or> emotion = ''joy''
      then requestMove Head 95 (requestMove RightArm 20 (requestMove LeftArm 160 s))
      else requestMove Head 90 (requestMove RightArm 0 (requestMove LeftArm 180 s)))"

definition processPendingRequests_emotion :: "readings \<Rightarrow> robot \<Rightarrow> robot" where
  "processPendingRequests_emotion r s =
     (case drainEmotion s of
        (None, s1) \<Rightarrow> s1
      | (Some emotion, s1) \<Rightarrow>
          emotionPose emotion
            (s1\<lparr>current_sentiment := emotion, current_emotion := emotion,
                emotion_mode_active := True, head_tracking_enabled := False,
                emotion_mode_start := t_emotion r\<rparr>))"

text \<open>
  The person-count branch, entered once the two-second interval has passed: the angle
  handed to \<^verbatim>\<open>moveServoSafely\<close> and the new values of the statics
  \<^verbatim>\<open>currentDirection\<close> and \<^verbatim>\<open>movementSpeed\<close>.
\<close>

definition sweepBounce :: "robot \<Rightarrow> int \<Rightarrow> int \<Rightarrow> int \<times> int" where
  "sweepBounce s newAngle direction =
     (if newAngle \<ge> maxPos (headState s) then (maxPos (headState s), -1)
      else if newAngle \<le> minPos (headState s) then (minPos (headState s), 1)
      else (newAngle, direction))"

definition personCountMove :: "readings \<Rightarrow> int \<Rightarrow> robot \<Rightarrow> robot" where
  "personCountMove r number s =
     (if number = 0 then
        let (newAngle, direction) =
              sweepBounce s (currentPos (headState s) + currentDirection s * movementSpeed s)
                (currentDirection s)
        in requestMove Head newAngle (s\<lparr>currentDirection := direction\<rparr>)
      else if number \<ge> 1 then
        let (newAngle, direction) =
              sweepBounce s (currentPos (headState s) + currentDirection s * 8)
                (if rnd r < 30 then currentDirection s * (-1) else currentDirection s)
        in requestMove Head newAngle (s\<lparr>movementSpeed := 8, currentDirection := direction\<rparr>)
      else requestMove Head (uninit r) s)"

definition processPendingRequests_head :: "readings \<Rightarrow> robot \<Rightarrow> robot" where
  "processPendingRequests_head r s =
     (case drainHead s of
        (None, s1) \<Rightarrow> s1
      | (Some (number, angle), s1) \<Rightarrow>
          if \<not> emotion_mode_active s1 \<and> head_tracking_enabled s1 then
            if angle \<noteq> -1 then
              let safeAngle = constrain angle (minPos (headState s1)) (maxPos (headState s1))
              in requestMove Head safeAngle s1
            else if number \<noteq> -1 then
              let currentTime = t_head r in
              if currentTime - sweepLastMoveTime s1 > 2000
              then (personCountMove r number s1)\<lparr>sweepLastMoveTime := currentTime\<rparr>
              else s1
            else s1
          else s1)"

definition processPendingRequests :: "readings \<Rightarrow> robot \<Rightarrow> robot" where
  "processPendingRequests r s =
     processPendingRequests_head r
       (processPendingRequests_emotion r (processPendingRequests_reset r s))"

section \<open>\<^verbatim>\<open>loop\<close> of the FastLED sketch\<close>

text \<open>
  The time-out block of \<^verbatim>\<open>loop()\<close>, with the \<^verbatim>\<open>now\<close> that \<^verbatim>\<open>loop\<close> read on entry.
\<close>

definition loop_emotionTimeout :: "millis_t \<Rightarrow> robot \<Rightarrow> robot" where
  "loop_emotionTimeout now s =
     (if emotion_mode_active s \<and> now - emotion_mode_start s > EMOTION_MODE_DURATION
      then neutralPose (s\<lparr>emotion_mode_active := False, head_tracking_enabled := True,
                          current_emotion := ''happy'', current_sentiment := ''happy''\<rparr>)
      else s)"

text \<open>
  One iteration: \<open>now\<close> is read first, then the requests are processed, the servos
  advanced (at the reading \<open>t_servo\<close>) and the time-out checked. Blinking, the WiFi check
  and the heartbeat touch none of the modelled state.
\<close>

definition loop :: "millis_t \<Rightarrow> readings \<Rightarrow> millis_t \<Rightarrow> robot \<Rightarrow> robot" where
  "loop now r t_servo s =
     loop_emotionTimeout now (updateServoPositions t_servo (processPendingRequests r s))"

section \<open>Runs of the FastLED sketch\<close>

text \<open>
  The steps a run is made of: a request handled by the web server, or one of the three
  stages of \<^verbatim>\<open>loop()\<close>. Requests arrive between any two stages.
\<close>

datatype event =
    PostReceive body
  | PostHead body
  | PostHeadPosition body
  | PostReset
  | ProcessPendingRequests readings
  | UpdateServos millis_t
  | EmotionTimeout millis_t

fun exec :: "robot \<Rightarrow> event \<Rightarrow> robot" where
  "exec s (PostReceive b) = snd (onReceiveHandler b s)"
| "exec s (PostHead b) = snd (onHeadHandler b s)"
| "exec s (PostHeadPosition b) = snd (onHeadPositionHandler b s)"
| "exec s PostReset = snd (onResetHandler s)"
| "exec s (ProcessPendingRequests r) = processPendingRequests r s"
| "exec s (UpdateServos t) = updateServoPositions t s"
| "exec s (EmotionTimeout now) = loop_emotionTimeout now s"

definition run :: "event list \<Rightarrow> robot" where
  "run es = foldl exec init_robot es"

text \<open>Which steps write a mailbox, and which step drains them.\<close>

fun posts_emotion :: "event \<Rightarrow> bool" where
  "posts_emotion (PostReceive b) = True"
| "posts_emotion e = False"

fun posts_head :: "event \<Rightarrow> bool" where
  "posts_head (PostHead b) = True"
| "posts_head (PostHeadPosition b) = True"
| "posts_head e = False"

fun posts_reset :: "event \<Rightarrow> bool" where
  "posts_reset PostReset = True"
| "posts_reset e = False"

fun drains :: "event \<Rightarrow> bool" where
  "drains (ProcessPendingRequests r) = True"
| "drains e = False"

text \<open>The members of a response body, and its status code.\<close>

fun members :: "response \<Rightarrow> (string \<times> jmember) list" where
  "members (Response code ms) = ms"

fun status_code :: "response \<Rightarrow> nat" where
  "status_code (Response code ms) = code"


section \<open>The sketch \<^verbatim>\<open>src/gesture/sketch_aug2a/sketch_aug2a.ino\<close>\<close>

text \<open>
  The older sketch keeps its commands in one \<^verbatim>\<open>SimpleTask\<close> and answers
  \<^verbatim>\<open>/head\<close> differently. Its globals and functions that share a name with the FastLED
  sketch carry the suffix \<open>_aug2a\<close>; its \<^verbatim>\<open>ServoState\<close> is \<open>ServoCore\<close>.
\<close>

record SimpleTask =
  has_emotion_task :: bool
  has_head_task :: bool
  emotion_data :: string
  head_angle :: int
  task_time :: millis_t

record sketch_aug2a =
  current_emotion_aug2a :: string
  emotion_mode_active_aug2a :: bool
  head_tracking_enabled_aug2a :: bool
  server_busy :: bool
  currentTask :: SimpleTask
  headState_aug2a :: ServoCore
  leftArmState_aug2a :: ServoCore
  rightArmState_aug2a :: ServoCore

definition init_aug2a :: sketch_aug2a where
  "init_aug2a =
     \<lparr>current_emotion_aug2a = ''happy'', emotion_mode_active_aug2a = False,
      head_tracking_enabled_aug2a = True, server_busy = False,
      currentTask = \<lparr>has_emotion_task = False, has_head_task = False, emotion_data = '''',
                     head_angle = 90, task_time = 0\<rparr>,
      headState_aug2a = \<lparr>currentPos = 90, targetPos = 90, lastMoveTime = 0, moving = False,
                         minPos = 60, maxPos = 120\<rparr>,
      leftArmState_aug2a = \<lparr>currentPos = 180, targetPos = 180, lastMoveTime = 0, moving = False,
                            minPos = 0, maxPos = 180\<rparr>,
      rightArmState_aug2a = \<lparr>currentPos = 0, targetPos = 0, lastMoveTime = 0, moving = False,
                             minPos = 0, maxPos = 180\<rparr>\<rparr>"

text \<open>\<^verbatim>\<open>moveServoSafely\<close> of this sketch: the threshold is 3.\<close>

definition moveServoSafely_aug2a :: "ServoCore \<Rightarrow> int \<Rightarrow> ServoCore" where
  "moveServoSafely_aug2a state targetAngle =
     (let safeAngle = constrain targetAngle (minPos state) (maxPos state)
      in if \<bar>targetPos state - safeAngle\<bar> > 3
         then state\<lparr>targetPos := safeAngle, moving := True\<rparr>
         else state)"

definition updateArmPose :: "sketch_aug2a \<Rightarrow> sketch_aug2a" where
  "updateArmPose s =
     (if current_emotion_aug2a s = ''sad'' \<or> current_emotion_aug2a s = ''fear'' then
        let s1 = s\<lparr>rightArmState_aug2a := moveServoSafely_aug2a (rightArmState_aug2a s) 90\<rparr>
        in s1\<lparr>leftArmState_aug2a := moveServoSafely_aug2a (leftArmState_aug2a s1) 90\<rparr>
      else if current_emotion_aug2a s = ''angry'' then
        let s1 = s\<lparr>rightArmState_aug2a := moveServoSafely_aug2a (rightArmState_aug2a s) 150\<rparr>
        in s1\<lparr>leftArmState_aug2a := moveServoSafely_aug2a (leftArmState_aug2a s1) 30\<rparr>
      else
        let s1 = s\<lparr>rightArmState_aug2a := moveServoSafely_aug2a (rightArmState_aug2a s) 0\<rparr>
        in s1\<lparr>leftArmState_aug2a := moveServoSafely_aug2a (leftArmState_aug2a s1) 180\<rparr>)"

definition moveHead_aug2a :: "int \<Rightarrow> sketch_aug2a \<Rightarrow> sketch_aug2a" where
  "moveHead_aug2a a s = s\<lparr>headState_aug2a := moveServoSafely_aug2a (headState_aug2a s) a\<rparr>"

text \<open>\<^verbatim>\<open>checkEmotionTimeout\<close>, at the reading \<open>now\<close> of \<^verbatim>\<open>millis()\<close>.\<close>

definition checkEmotionTimeout :: "millis_t \<Rightarrow> sketch_aug2a \<Rightarrow> sketch_aug2a" where
  "checkEmotionTimeout now s =
     (if emotion_mode_active_aug2a s \<and> now - task_time (currentTask s) > 8000
      then moveHead_aug2a 90
             (updateArmPose (s\<lparr>emotion_mode_active_aug2a := False,
                                head_tracking_enabled_aug2a := True,
                                current_emotion_aug2a := ''happy''\<rparr>))
      else s)"

text \<open>\<^verbatim>\<open>processSimpleTasks\<close>, at the reading \<open>currentTime\<close>: the emotion task, then the head task.\<close>

definition processSimpleTasks_emotion :: "millis_t \<Rightarrow> sketch_aug2a \<Rightarrow> sketch_aug2a" where
  "processSimpleTasks_emotion currentTime s =
     (if has_emotion_task (currentTask s) then
        let s1 = s\<lparr>current_emotion_aug2a := emotion_data (currentTask s),
                   emotion_mode_active_aug2a := True,
                   head_tracking_enabled_aug2a := False,
                   currentTask := (currentTask s)\<lparr>task_time := currentTime\<rparr>\<rparr>;
            s2 = moveHead_aug2a 75 (updateArmPose s1)
        in s2\<lparr>currentTask := (currentTask s2)\<lparr>has_emotion_task := False\<rparr>\<rparr>
      else s)"

definition processSimpleTasks_head :: "sketch_aug2a \<Rightarrow> sketch_aug2a" where
  "processSimpleTasks_head s =
     (if has_head_task (currentTask s) \<and> \<not> emotion_mode_active_aug2a s then
        let safeAngle = constrain (head_angle (currentTask s)) 70 110;
            s1 = moveHead_aug2a safeAngle s
        in s1\<lparr>currentTask := (currentTask s1)\<lparr>has_head_task := False\<rparr>\<rparr>
      else s)"

definition processSimpleTasks :: "millis_t \<Rightarrow> sketch_aug2a \<Rightarrow> sketch_aug2a" where
  "processSimpleTasks currentTime s =
     processSimpleTasks_head (processSimpleTasks_emotion currentTime s)"

text \<open>
  \<^verbatim>\<open>handleReceiveRequest\<close>. The handler raises \<^verbatim>\<open>server_busy\<close> while it runs and
  lowers it on every path past the first test. The sentiment is stored as received.
\<close>

definition handleReceiveRequest :: "body \<Rightarrow> sketch_aug2a \<Rightarrow> response \<times> sketch_aug2a" where
  "handleReceiveRequest b s =
     (if server_busy s then (Response 503 [(''error'', JStr ''busy'')], s)
      else case b of
        Malformed err \<Rightarrow> (Response 400 [(''error'', JStr ''json'')], s\<lparr>server_busy := False\<rparr>)
      | Parsed doc \<Rightarrow>
          (case doc ''sentiment'' of
             Some v \<Rightarrow>
               let sentiment = as_String v in
               (Response 200 [(''status'', JStr ''ok'')],
                s\<lparr>currentTask := (currentTask s)\<lparr>has_emotion_task := True, emotion_data := sentiment\<rparr>,
                  server_busy := False\<rparr>)
           | None \<Rightarrow> (Response 400 [(''error'', JStr ''missing'')], s\<lparr>server_busy := False\<rparr>)))"

text \<open>
  \<^verbatim>\<open>handleHeadRequest\<close>: refused while emotion mode is active; the test for
  \<^verbatim>\<open>angle\<close> comes first. The sum over the person count is an \<^verbatim>\<open>int\<close> expression.
\<close>

definition handleHeadRequest :: "body \<Rightarrow> sketch_aug2a \<Rightarrow> response \<times> sketch_aug2a" where
  "handleHeadRequest b s =
     (if server_busy s \<or> emotion_mode_active_aug2a s
      then (Response 503 [(''status'', JStr ''blocked'')], s)
      else case b of
        Malformed err \<Rightarrow> (Response 400 [(''error'', JStr ''json'')], s\<lparr>server_busy := False\<rparr>)
      | Parsed doc \<Rightarrow>
          (case doc ''angle'' of
             Some v \<Rightarrow>
               let angle = as_int v in
               (Response 200 [(''status'', JStr ''ok'')],
                s\<lparr>currentTask := (currentTask s)\<lparr>has_head_task := True, head_angle := angle\<rparr>,
                  server_busy := False\<rparr>)
           | None \<Rightarrow>
               (case doc ''number'' of
                  Some v \<Rightarrow>
                    let people = as_int v;
                        angle = wrap_long (90 + (if people > 1 then wrap_long (wrap_long (people - 1) * 5) else 0))
                    in (Response 200 [(''status'', JStr ''ok'')],
                        s\<lparr>currentTask := (currentTask s)\<lparr>has_head_task := True, head_angle := angle\<rparr>,
                          server_busy := False\<rparr>)
                | None \<Rightarrow> (Response 400 [(''error'', JStr ''missing'')], s\<lparr>server_busy := False\<rparr>))))"

definition handleStatusRequest :: "int \<Rightarrow> sketch_aug2a \<Rightarrow> response" where
  "handleStatusRequest heap s =
     Response 200
       [(''emotion'', JStr (current_emotion_aug2a s)),
        (''head'', JNum (currentPos (headState_aug2a s))),
        (''heap'', JNum heap)]"

text \<open>\<^verbatim>\<open>handleResetRequest\<close> resets at once, inside the handler.\<close>

definition handleResetRequest :: "sketch_aug2a \<Rightarrow> response \<times> sketch_aug2a" where
  "handleResetRequest s =
     (Response 200 [(''status'', JStr ''reset'')],
      moveHead_aug2a 90
        (updateArmPose (s\<lparr>current_emotion_aug2a := ''happy'', emotion_mode_active_aug2a := False,
                           head_tracking_enabled_aug2a := True\<rparr>)))"

text \<open>
  The steps of a run of this sketch: the three request handlers and the two stages of
  its \<^verbatim>\<open>loop()\<close> that write the state modelled here.
\<close>

datatype event_aug2a =
    ReceiveRequest body
  | HeadRequest body
  | ResetRequest
  | SimpleTasks millis_t
  | CheckTimeout millis_t

fun exec_aug2a :: "sketch_aug2a \<Rightarrow> event_aug2a \<Rightarrow> sketch_aug2a" where
  "exec_aug2a s (ReceiveRequest b) = snd (handleReceiveRequest b s)"
| "exec_aug2a s (HeadRequest b) = snd (handleHeadRequest b s)"
| "exec_aug2a s ResetRequest = snd (handleResetRequest s)"
| "exec_aug2a s (SimpleTasks t) = processSimpleTasks t s"
| "exec_aug2a s (CheckTimeout t) = checkEmotionTimeout t s"

definition run_aug2a :: "event_aug2a list \<Rightarrow> sketch_aug2a" where
  "run_aug2a es = foldl exec_aug2a init_aug2a es"


section \<open>Invariants of the runs\<close>

text \<open>
  No statement assigns \<^verbatim>\<open>minPos\<close> or \<^verbatim>\<open>maxPos\<close>, and the arm targets only ever come
  from the pose tables.
\<close>

definition bounds_fixed :: "robot \<Rightarrow> bool" where
  "bounds_fixed s =
     (minPos (headState s) = 45 \<and> maxPos (headState s) = 135
      \<and> minPos (leftArmState s) = 0 \<and> maxPos (leftArmState s) = 180
      \<and> minPos (rightArmState s) = 0 \<and> maxPos (rightArmState s) = 180)"

definition arms_posed :: "robot \<Rightarrow> bool" where
  "arms_posed s =
     (targetPos (leftArmState s) \<in> {180, 90, 45, 120, 160}
      \<and> targetPos (rightArmState s) \<in> {0, 90, 135, 60, 20})"

definition inv_aug2a :: "sketch_aug2a \<Rightarrow> bool" where
  "inv_aug2a s =
     (minPos (headState_aug2a s) = 60 \<and> maxPos (headState_aug2a s) = 120
      \<and> minPos (leftArmState_aug2a s) = 0 \<and> maxPos (leftArmState_aug2a s) = 180
      \<and> minPos (rightArmState_aug2a s) = 0 \<and> maxPos (rightArmState_aug2a s) = 180
      \<and> targetPos (leftArmState_aug2a s) \<in> {180, 90, 30}
      \<and> targetPos (rightArmState_aug2a s) \<in> {0, 90, 150}
      \<and> (if emotion_mode_active_aug2a s
          then 72 \<le> targetPos (headState_aug2a s) \<and> targetPos (headState_aug2a s) \<le> 78
          else True))"

definition run_inv :: "robot \<Rightarrow> bool" where
  "run_inv s = (bounds_fixed s \<and> arms_posed s)"

text \<open>The angles \<^verbatim>\<open>updateArmPose\<close> requests for an emotion: right arm, left arm.\<close>

definition armPose_aug2a :: "string \<Rightarrow> int \<times> int" where
  "armPose_aug2a e =
     (if e = ''sad'' \<or> e = ''fear'' then (90, 90)
      else if e = ''angry'' then (150, 30)
      else (0, 180))"


section \<open>Properties of the servo scheduler\<close>

lemma stepAxis_idle:
  "\<not> (moving st \<and> now - lastMoveTime st \<ge> SERVO_MOVE_DELAY) \<Longrightarrow> stepAxis now st = st"
  unfolding stepAxis_def by (rule if_not_P)

lemma head_block:
  "updateServoPositions_head now s =
     s\<lparr>headState := stepAxis now (headState s),
       headServo := stepServo now (headState s) (headServo s)\<rparr>"
proof (cases "moving (headState s) \<and> now - lastMoveTime (headState s) \<ge> SERVO_MOVE_DELAY")
  case False
  have a: "updateServoPositions_head now s = s"
    unfolding updateServoPositions_head_def using False by (rule if_not_P)
  have b: "stepServo now (headState s) (headServo s) = headServo s"
    unfolding stepServo_def using False by (rule if_not_P)
  show ?thesis
    unfolding a b stepAxis_idle[OF False] by simp
next
  case True
  then show ?thesis
    by (simp add: updateServoPositions_head_def stepAxis_def stepServo_def Let_def)
qed

lemma leftArm_block:
  "updateServoPositions_leftArm now s =
     s\<lparr>leftArmState := stepAxis now (leftArmState s),
       leftArmServo := stepServo now (leftArmState s) (leftArmServo s)\<rparr>"
proof (cases "moving (leftArmState s) \<and> now - lastMoveTime (leftArmState s) \<ge> SERVO_MOVE_DELAY")
  case False
  have a: "updateServoPositions_leftArm now s = s"
    unfolding updateServoPositions_leftArm_def using False by (rule if_not_P)
  have b: "stepServo now (leftArmState s) (leftArmServo s) = leftArmServo s"
    unfolding stepServo_def using False by (rule if_not_P)
  show ?thesis
    unfolding a b stepAxis_idle[OF False] by simp
next
  case True
  then show ?thesis
    by (simp add: updateServoPositions_leftArm_def stepAxis_def stepServo_def Let_def)
qed

lemma rightArm_block:
  "updateServoPositions_rightArm now s =
     s\<lparr>rightArmState := stepAxis now (rightArmState s),
       rightArmServo := stepServo now (rightArmState s) (rightArmServo s)\<rparr>"
proof (cases "moving (rightArmState s) \<and> now - lastMoveTime (rightArmState s) \<ge> SERVO_MOVE_DELAY")
  case False
  have a: "updateServoPositions_rightArm now s = s"
    unfolding updateServoPositions_rightArm_def using False by (rule if_not_P)
  have b: "stepServo now (rightArmState s) (rightArmServo s) = rightArmServo s"
    unfolding stepServo_def using False by (rule if_not_P)
  show ?thesis
    unfolding a b stepAxis_idle[OF False] by simp
next
  case True
  then show ?thesis
    by (simp add: updateServoPositions_rightArm_def stepAxis_def stepServo_def Let_def)
qed

lemma updateServoPositions_eq:
  "updateServoPositions now s =
     s\<lparr>headState := stepAxis now (headState s),
       headServo := stepServo now (headState s) (headServo s),
       leftArmState := stepAxis now (leftArmState s),
       leftArmServo := stepServo now (leftArmState s) (leftArmServo s),
       rightArmState := stepAxis now (rightArmState s),
       rightArmServo := stepServo now (rightArmState s) (rightArmServo s)\<rparr>"
  unfolding updateServoPositions_def head_block leftArm_block rightArm_block by simp

lemma axisState_update:
  "axisState ax (updateServoPositions now s) = stepAxis now (axisState ax s)"
  unfolding updateServoPositions_eq by (cases ax) simp_all

lemma stepAxis_frame:
  "targetPos (stepAxis now st) = targetPos st"
  "minPos (stepAxis now st) = minPos st"
  "maxPos (stepAxis now st) = maxPos st"
  "name (stepAxis now st) = name st"
  by (simp_all add: stepAxis_def Let_def)

lemma stepAxis_ok: "axis_ok st \<Longrightarrow> axis_ok (stepAxis now st)"
  by (auto simp add: stepAxis_def axis_ok_def Let_def SERVO_STEP_SIZE_def)

lemma constrain_range: "lo \<le> hi \<Longrightarrow> lo \<le> constrain a lo hi \<and> constrain a lo hi \<le> hi"
  by (simp add: constrain_def)

lemma moveServoSafely_ok: "axis_ok st \<Longrightarrow> axis_ok (moveServoSafely st a)"
  using constrain_range[of "minPos st" "maxPos st" a]
  by (simp add: moveServoSafely_def axis_ok_def Let_def)

lemma moveServoSafely_target:
  "targetPos (moveServoSafely st a) = targetPos st
   \<or> targetPos (moveServoSafely st a) = constrain a (minPos st) (maxPos st)"
  by (simp add: moveServoSafely_def Let_def)

lemma robot_ok_axis: "robot_ok s \<Longrightarrow> axis_ok (axisState ax s)"
  by (cases ax) (simp_all add: robot_ok_def)

lemma robot_ok_update: "robot_ok s \<Longrightarrow> robot_ok (updateServoPositions now s)"
  unfolding updateServoPositions_eq by (simp add: robot_ok_def stepAxis_ok)

lemma robot_ok_requestMove: "robot_ok s \<Longrightarrow> robot_ok (requestMove ax a s)"
  by (cases ax) (simp_all add: robot_ok_def moveServoSafely_ok)

lemma robot_ok_exec: "robot_ok s \<Longrightarrow> robot_ok (servo_exec s c)"
  by (cases c) (simp_all add: robot_ok_update robot_ok_requestMove)

lemma robot_ok_run: "robot_ok s \<Longrightarrow> robot_ok (servo_run cs s)"
  unfolding servo_run_def by (induction cs arbitrary: s) (simp_all add: robot_ok_exec)

lemma robot_ok_init: "robot_ok init_robot"
  by (simp add: robot_ok_def init_robot_def axis_ok_def)

text \<open>
  Claim C1. Starting from the initial poses, after any sequence of \<^verbatim>\<open>moveServoSafely\<close>
  calls and \<^verbatim>\<open>updateServoPositions\<close> runs, every axis has its current position and
  its target between \<^verbatim>\<open>minPos\<close> and \<^verbatim>\<open>maxPos\<close>; the angle a further request can
  install as target is the requested angle constrained to these bounds.
\<close>

theorem servo_positions_within_bounds:
  "let s = servo_run cs init_robot; st = axisState ax s in
     minPos st \<le> currentPos st \<and> currentPos st \<le> maxPos st
     \<and> minPos st \<le> targetPos st \<and> targetPos st \<le> maxPos st
     \<and> minPos st \<le> constrain a (minPos st) (maxPos st)
     \<and> constrain a (minPos st) (maxPos st) \<le> maxPos st
     \<and> targetPos (moveServoSafely st a) \<in> {targetPos st, constrain a (minPos st) (maxPos st)}
     \<and> axisState ax (requestMove ax a s) = moveServoSafely st a"
proof -
  have ok: "axis_ok (axisState ax (servo_run cs init_robot))"
    by (rule robot_ok_axis[OF robot_ok_run[OF robot_ok_init]])
  have rm: "axisState ax (requestMove ax a s) = moveServoSafely (axisState ax s) a" for s
    by (cases ax) simp_all
  show ?thesis
    using ok constrain_range[of "minPos (axisState ax (servo_run cs init_robot))"
                                "maxPos (axisState ax (servo_run cs init_robot))" a]
          moveServoSafely_target[of "axisState ax (servo_run cs init_robot)" a]
    by (auto simp add: Let_def axis_ok_def rm)
qed

theorem servo_positions_within_bounds_witness:
  "currentPos (headState (servo_run [MoveServoSafely Head 200, UpdateServoPositions 25, UpdateServoPositions 50] init_robot)) = 94
   \<and> targetPos (headState (servo_run [MoveServoSafely Head 200, UpdateServoPositions 25, UpdateServoPositions 50] init_robot)) = 135"
  using servo_positions_within_bounds[of "[MoveServoSafely Head 200, UpdateServoPositions 25, UpdateServoPositions 50]" Head 200]
  by (simp add: servo_run_def init_robot_def updateServoPositions_eq stepAxis_def moveServoSafely_def constrain_def
       SERVO_MOVE_DELAY_def SERVO_STEP_SIZE_def Let_def)

lemma stepAxis_J:
  "moving st = (currentPos st \<noteq> targetPos st) \<Longrightarrow>
   moving (stepAxis now st) = (currentPos (stepAxis now st) \<noteq> targetPos st)"
  by (simp add: stepAxis_def Let_def)

lemma stepAxis_first:
  "moving st \<Longrightarrow> now - lastMoveTime st \<ge> SERVO_MOVE_DELAY \<Longrightarrow>
   moving (stepAxis now st) = (currentPos (stepAxis now st) \<noteq> targetPos st)"
  by (simp add: stepAxis_def Let_def)

lemma stepAxis_pos:
  "moving st \<or> currentPos st = targetPos st \<Longrightarrow> now - lastMoveTime st \<ge> SERVO_MOVE_DELAY \<Longrightarrow>
   currentPos (stepAxis now st) =
     (if currentPos st \<le> targetPos st then min (targetPos st) (currentPos st + SERVO_STEP_SIZE)
      else max (targetPos st) (currentPos st - SERVO_STEP_SIZE))"
  by (auto simp add: stepAxis_def Let_def SERVO_STEP_SIZE_def)

lemma stepAxis_keeps:
  "moving st \<or> currentPos st = targetPos st \<Longrightarrow> now - lastMoveTime st \<ge> SERVO_MOVE_DELAY \<Longrightarrow>
   moving (stepAxis now st) \<or> currentPos (stepAxis now st) = targetPos (stepAxis now st)"
  by (auto simp add: stepAxis_def Let_def SERVO_STEP_SIZE_def)

lemma ticks_Cons: "ticks (t # ts) s = ticks ts (updateServoPositions t s)"
  by (simp add: ticks_def)

lemma ticks_target: "targetPos (axisState ax (ticks ts s)) = targetPos (axisState ax s)"
  by (induction ts arbitrary: s) (simp_all add: ticks_def axisState_update stepAxis_frame)

lemma ticks_pos:
  "moving (axisState ax s) \<or> currentPos (axisState ax s) = targetPos (axisState ax s) \<Longrightarrow>
   all_due ax s ts \<Longrightarrow>
   currentPos (axisState ax (ticks ts s)) =
     (if currentPos (axisState ax s) \<le> targetPos (axisState ax s)
      then min (targetPos (axisState ax s)) (currentPos (axisState ax s) + SERVO_STEP_SIZE * int (length ts))
      else max (targetPos (axisState ax s)) (currentPos (axisState ax s) - SERVO_STEP_SIZE * int (length ts)))"
proof (induction ts arbitrary: s)
  case Nil
  then show ?case by (simp add: ticks_def)
next
  case (Cons t ts)
  let ?st = "axisState ax s"
  let ?s1 = "updateServoPositions t s"
  have due: "t - lastMoveTime ?st \<ge> SERVO_MOVE_DELAY" and rest: "all_due ax ?s1 ts"
    using Cons.prems(2) by simp_all
  have st1: "axisState ax ?s1 = stepAxis t ?st" by (rule axisState_update)
  have keep: "moving (axisState ax ?s1) \<or> currentPos (axisState ax ?s1) = targetPos (axisState ax ?s1)"
    unfolding st1 by (rule stepAxis_keeps[OF Cons.prems(1) due])
  have p1: "currentPos (axisState ax ?s1) =
     (if currentPos ?st \<le> targetPos ?st then min (targetPos ?st) (currentPos ?st + SERVO_STEP_SIZE)
      else max (targetPos ?st) (currentPos ?st - SERVO_STEP_SIZE))"
    unfolding st1 by (rule stepAxis_pos[OF Cons.prems(1) due])
  have t1: "targetPos (axisState ax ?s1) = targetPos ?st"
    unfolding st1 by (rule stepAxis_frame)
  have ih: "currentPos (axisState ax (ticks ts ?s1)) =
     (if currentPos (axisState ax ?s1) \<le> targetPos ?st
      then min (targetPos ?st) (currentPos (axisState ax ?s1) + SERVO_STEP_SIZE * int (length ts))
      else max (targetPos ?st) (currentPos (axisState ax ?s1) - SERVO_STEP_SIZE * int (length ts)))"
    using Cons.IH[OF keep rest] unfolding t1 .
  show ?case
    unfolding ticks_Cons ih p1 by (simp add: SERVO_STEP_SIZE_def algebra_simps min_def max_def)
qed

lemma ticks_moving:
  "moving (axisState ax s) = (currentPos (axisState ax s) \<noteq> targetPos (axisState ax s)) \<Longrightarrow>
   moving (axisState ax (ticks ts s)) = (currentPos (axisState ax (ticks ts s)) \<noteq> targetPos (axisState ax s))"
proof (induction ts arbitrary: s)
  case Nil
  then show ?case by (simp add: ticks_def)
next
  case (Cons t ts)
  have "moving (axisState ax (updateServoPositions t s))
        = (currentPos (axisState ax (updateServoPositions t s)) \<noteq> targetPos (axisState ax (updateServoPositions t s)))"
    unfolding axisState_update stepAxis_frame by (rule stepAxis_J[OF Cons.prems])
  from Cons.IH[OF this] show ?case
    unfolding ticks_Cons axisState_update stepAxis_frame .
qed

text \<open>
  Claim C2. An axis that is moving, stepped at readings that are each due, follows
  a closed form: after \<open>n\<close> runs its position is the start moved by
  \<open>n * SERVO_STEP_SIZE\<close> towards the target and cut off at the target. It never
  passes the target, arrives once \<open>n * SERVO_STEP_SIZE\<close> covers the distance, and
  from the first run on \<^verbatim>\<open>moving\<close> is set exactly while the position differs from
  the target.
\<close>

theorem servo_converges_without_overshoot:
  assumes mv: "moving (axisState ax s)" and due: "all_due ax s ts"
  shows "targetPos (axisState ax (ticks ts s)) = targetPos (axisState ax s)
    \<and> currentPos (axisState ax (ticks ts s)) =
        (if currentPos (axisState ax s) \<le> targetPos (axisState ax s)
         then min (targetPos (axisState ax s)) (currentPos (axisState ax s) + SERVO_STEP_SIZE * int (length ts))
         else max (targetPos (axisState ax s)) (currentPos (axisState ax s) - SERVO_STEP_SIZE * int (length ts)))
    \<and> (\<bar>targetPos (axisState ax s) - currentPos (axisState ax s)\<bar> \<le> SERVO_STEP_SIZE * int (length ts)
         \<longrightarrow> currentPos (axisState ax (ticks ts s)) = targetPos (axisState ax s))
    \<and> (ts \<noteq> [] \<longrightarrow>
         moving (axisState ax (ticks ts s)) = (currentPos (axisState ax (ticks ts s)) \<noteq> targetPos (axisState ax s)))"
proof -
  have pos: "currentPos (axisState ax (ticks ts s)) =
        (if currentPos (axisState ax s) \<le> targetPos (axisState ax s)
         then min (targetPos (axisState ax s)) (currentPos (axisState ax s) + SERVO_STEP_SIZE * int (length ts))
         else max (targetPos (axisState ax s)) (currentPos (axisState ax s) - SERVO_STEP_SIZE * int (length ts)))"
    using mv due by (intro ticks_pos) simp_all
  have reach: "currentPos (axisState ax (ticks ts s)) = targetPos (axisState ax s)"
    if "\<bar>targetPos (axisState ax s) - currentPos (axisState ax s)\<bar> \<le> SERVO_STEP_SIZE * int (length ts)"
    using that unfolding pos SERVO_STEP_SIZE_def by (auto simp add: min_def max_def)
  have flag: "moving (axisState ax (ticks ts s)) = (currentPos (axisState ax (ticks ts s)) \<noteq> targetPos (axisState ax s))"
    if ne: "ts \<noteq> []"
  proof -
    obtain t ts' where ts: "ts = t # ts'" using ne by (cases ts) auto
    have d: "t - lastMoveTime (axisState ax s) \<ge> SERVO_MOVE_DELAY" using due ts by simp
    have "moving (axisState ax (updateServoPositions t s))
        = (currentPos (axisState ax (updateServoPositions t s)) \<noteq> targetPos (axisState ax (updateServoPositions t s)))"
      unfolding axisState_update stepAxis_frame by (rule stepAxis_first[OF mv d])
    from ticks_moving[OF this] show ?thesis
      unfolding ts ticks_Cons axisState_update stepAxis_frame .
  qed
  show ?thesis using ticks_target pos reach flag by blast
qed


theorem servo_converges_without_overshoot_witness:
  "moving (axisState Head (requestMove Head 95 init_robot))
   \<and> all_due Head (requestMove Head 95 init_robot) [25, 50, 75]
   \<and> currentPos (axisState Head (ticks [25, 50] (requestMove Head 95 init_robot))) = 94
   \<and> moving (axisState Head (ticks [25, 50] (requestMove Head 95 init_robot)))
   \<and> currentPos (axisState Head (ticks [25, 50, 75] (requestMove Head 95 init_robot))) = 95
   \<and> \<not> moving (axisState Head (ticks [25, 50, 75] (requestMove Head 95 init_robot)))"
proof -
  let ?s = "requestMove Head 95 init_robot"
  have mv: "moving (axisState Head ?s)"
    by code_simp
  have d3: "all_due Head ?s [25, 50, 75]"
    by code_simp
  have d2: "all_due Head ?s [25, 50]"
    by code_simp
  have c: "currentPos (axisState Head ?s) = 90" "targetPos (axisState Head ?s) = 95"
    by code_simp+
  show ?thesis
    using mv d3 servo_converges_without_overshoot[OF mv d2] servo_converges_without_overshoot[OF mv d3]
    unfolding c by (simp add: SERVO_STEP_SIZE_def)
qed

lemma stepAxis_only:
  "stepAxis now st = st\<lparr>currentPos := currentPos (stepAxis now st),
      lastMoveTime := lastMoveTime (stepAxis now st), moving := moving (stepAxis now st)\<rparr>"
  by (simp add: stepAxis_def Let_def)

lemma axisServo_update:
  "axisServo ax (updateServoPositions now s) = stepServo now (axisState ax s) (axisServo ax s)"
  unfolding updateServoPositions_eq by (cases ax) simp_all

lemma block_other_axis:
  "ax' \<noteq> ax \<Longrightarrow> axisState ax' (updateServoBlock ax now s) = axisState ax' s
     \<and> axisServo ax' (updateServoBlock ax now s) = axisServo ax' s"
  by (cases ax; cases ax') (simp_all add: head_block leftArm_block rightArm_block)

lemma block_own_axis:
  "axisState ax (updateServoBlock ax now s) = stepAxis now (axisState ax s)"
  by (cases ax) (simp_all add: head_block leftArm_block rightArm_block)

text \<open>
  Claim C9. One run of \<^verbatim>\<open>updateServoPositions\<close> leaves \<^verbatim>\<open>targetPos\<close>,
  \<^verbatim>\<open>minPos\<close>, \<^verbatim>\<open>maxPos\<close> and \<^verbatim>\<open>name\<close> of every axis as they were and changes at
  most \<^verbatim>\<open>currentPos\<close>, \<^verbatim>\<open>lastMoveTime\<close> and \<^verbatim>\<open>moving\<close>; the new state of an axis
  is a function of the clock reading and of that axis's old state; the block of one
  axis leaves the other two axes and their servos alone; and nothing but the three
  servo states and the three servo outputs changes.
\<close>

theorem updateServoPositions_frame:
  "targetPos (axisState ax (updateServoPositions now s)) = targetPos (axisState ax s)
   \<and> minPos (axisState ax (updateServoPositions now s)) = minPos (axisState ax s)
   \<and> maxPos (axisState ax (updateServoPositions now s)) = maxPos (axisState ax s)
   \<and> name (axisState ax (updateServoPositions now s)) = name (axisState ax s)
   \<and> axisState ax (updateServoPositions now s) =
       (axisState ax s)\<lparr>currentPos := currentPos (axisState ax (updateServoPositions now s)),
                         lastMoveTime := lastMoveTime (axisState ax (updateServoPositions now s)),
                         moving := moving (axisState ax (updateServoPositions now s))\<rparr>
   \<and> axisState ax (updateServoPositions now s) = stepAxis now (axisState ax s)
   \<and> axisState ax (updateServoBlock ax now s) = stepAxis now (axisState ax s)
   \<and> (ax' \<noteq> ax \<longrightarrow> axisState ax' (updateServoBlock ax now s) = axisState ax' s
                     \<and> axisServo ax' (updateServoBlock ax now s) = axisServo ax' s)
   \<and> updateServoPositions now s =
       s\<lparr>headState := headState (updateServoPositions now s),
         headServo := headServo (updateServoPositions now s),
         leftArmState := leftArmState (updateServoPositions now s),
         leftArmServo := leftArmServo (updateServoPositions now s),
         rightArmState := rightArmState (updateServoPositions now s),
         rightArmServo := rightArmServo (updateServoPositions now s)\<rparr>"
proof -
  have only: "axisState ax (updateServoPositions now s) =
       (axisState ax s)\<lparr>currentPos := currentPos (axisState ax (updateServoPositions now s)),
                         lastMoveTime := lastMoveTime (axisState ax (updateServoPositions now s)),
                         moving := moving (axisState ax (updateServoPositions now s))\<rparr>"
    unfolding axisState_update by (rule stepAxis_only)
  have rest: "updateServoPositions now s =
       s\<lparr>headState := headState (updateServoPositions now s),
         headServo := headServo (updateServoPositions now s),
         leftArmState := leftArmState (updateServoPositions now s),
         leftArmServo := leftArmServo (updateServoPositions now s),
         rightArmState := rightArmState (updateServoPositions now s),
         rightArmServo := rightArmServo (updateServoPositions now s)\<rparr>"
    unfolding updateServoPositions_eq by simp
  show ?thesis
    using only rest block_other_axis[of ax' ax now s] block_own_axis[of ax now s]
    by (simp add: axisState_update stepAxis_frame)
qed

theorem updateServoPositions_frame_witness:
  "LeftArm \<noteq> Head
   \<and> axisState LeftArm (updateServoBlock Head 25 (requestMove Head 95 init_robot))
       = axisState LeftArm (requestMove Head 95 init_robot)
   \<and> currentPos (axisState Head (updateServoPositions 25 (requestMove Head 95 init_robot))) = 92
   \<and> targetPos (axisState Head (updateServoPositions 25 (requestMove Head 95 init_robot))) = 95"
proof -
  have ne: "LeftArm \<noteq> Head" by simp
  have c: "currentPos (axisState Head (updateServoPositions 25 (requestMove Head 95 init_robot))) = 92"
    by code_simp
  have t: "targetPos (axisState Head (requestMove Head 95 init_robot)) = 95"
    by code_simp
  note th = updateServoPositions_frame[of Head 25 "requestMove Head 95 init_robot" LeftArm]
  from th ne have o: "axisState LeftArm (updateServoBlock Head 25 (requestMove Head 95 init_robot))
       = axisState LeftArm (requestMove Head 95 init_robot)"
    by blast
  from th have "targetPos (axisState Head (updateServoPositions 25 (requestMove Head 95 init_robot)))
       = targetPos (axisState Head (requestMove Head 95 init_robot))"
    by (rule conjunct1)
  then have tt: "targetPos (axisState Head (updateServoPositions 25 (requestMove Head 95 init_robot))) = 95"
    unfolding t .
  show ?thesis
    using ne o c tt by blast
qed


section \<open>Properties of the request pipeline\<close>

lemma requestMove_globals:
  "current_emotion (requestMove ax a s) = current_emotion s"
  "current_sentiment (requestMove ax a s) = current_sentiment s"
  "emotion_mode_active (requestMove ax a s) = emotion_mode_active s"
  "head_tracking_enabled (requestMove ax a s) = head_tracking_enabled s"
  "pendingEmotion (requestMove ax a s) = pendingEmotion s"
  "pendingEmotionValue (requestMove ax a s) = pendingEmotionValue s"
  "pendingHead (requestMove ax a s) = pendingHead s"
  "pendingHeadNumber (requestMove ax a s) = pendingHeadNumber s"
  "pendingHeadAngle (requestMove ax a s) = pendingHeadAngle s"
  "pendingReset (requestMove ax a s) = pendingReset s"
  "resetAcknowledged (requestMove ax a s) = resetAcknowledged s"
  "resetStartTime (requestMove ax a s) = resetStartTime s"
  "emotion_mode_start (requestMove ax a s) = emotion_mode_start s"
  "sweepLastMoveTime (requestMove ax a s) = sweepLastMoveTime s"
  "currentDirection (requestMove ax a s) = currentDirection s"
  "movementSpeed (requestMove ax a s) = movementSpeed s"
  by (cases ax; simp)+

lemma neutralPose_globals:
  "current_emotion (neutralPose s) = current_emotion s"
  "current_sentiment (neutralPose s) = current_sentiment s"
  "emotion_mode_active (neutralPose s) = emotion_mode_active s"
  "head_tracking_enabled (neutralPose s) = head_tracking_enabled s"
  "pendingEmotion (neutralPose s) = pendingEmotion s"
  "pendingEmotionValue (neutralPose s) = pendingEmotionValue s"
  "pendingHead (neutralPose s) = pendingHead s"
  "pendingHeadNumber (neutralPose s) = pendingHeadNumber s"
  "pendingHeadAngle (neutralPose s) = pendingHeadAngle s"
  "pendingReset (neutralPose s) = pendingReset s"
  "resetAcknowledged (neutralPose s) = resetAcknowledged s"
  "resetStartTime (neutralPose s) = resetStartTime s"
  "emotion_mode_start (neutralPose s) = emotion_mode_start s"
  "sweepLastMoveTime (neutralPose s) = sweepLastMoveTime s"
  "currentDirection (neutralPose s) = currentDirection s"
  "movementSpeed (neutralPose s) = movementSpeed s"
  unfolding neutralPose_def by (simp_all only: requestMove_globals)

lemma emotionPose_globals:
  "current_emotion (emotionPose e s) = current_emotion s"
  "current_sentiment (emotionPose e s) = current_sentiment s"
  "emotion_mode_active (emotionPose e s) = emotion_mode_active s"
  "head_tracking_enabled (emotionPose e s) = head_tracking_enabled s"
  "pendingEmotion (emotionPose e s) = pendingEmotion s"
  "pendingEmotionValue (emotionPose e s) = pendingEmotionValue s"
  "pendingHead (emotionPose e s) = pendingHead s"
  "pendingHeadNumber (emotionPose e s) = pendingHeadNumber s"
  "pendingHeadAngle (emotionPose e s) = pendingHeadAngle s"
  "pendingReset (emotionPose e s) = pendingReset s"
  "resetAcknowledged (emotionPose e s) = resetAcknowledged s"
  "resetStartTime (emotionPose e s) = resetStartTime s"
  "emotion_mode_start (emotionPose e s) = emotion_mode_start s"
  "sweepLastMoveTime (emotionPose e s) = sweepLastMoveTime s"
  "currentDirection (emotionPose e s) = currentDirection s"
  "movementSpeed (emotionPose e s) = movementSpeed s"
  unfolding emotionPose_def by (simp_all only: requestMove_globals if_distrib[of current_emotion] if_distrib[of current_sentiment]
     if_distrib[of emotion_mode_active] if_distrib[of head_tracking_enabled] if_distrib[of pendingEmotion]
     if_distrib[of pendingEmotionValue] if_distrib[of pendingHead] if_distrib[of pendingHeadNumber]
     if_distrib[of pendingHeadAngle] if_distrib[of pendingReset] if_distrib[of resetAcknowledged]
     if_distrib[of resetStartTime] if_distrib[of emotion_mode_start] if_distrib[of sweepLastMoveTime]
     if_distrib[of currentDirection] if_distrib[of movementSpeed] if_cancel)

lemma reset_stage_mailboxes:
  "pendingEmotion (processPendingRequests_reset r s) = pendingEmotion s"
  "pendingEmotionValue (processPendingRequests_reset r s) = pendingEmotionValue s"
  "pendingHead (processPendingRequests_reset r s) = pendingHead s"
  "pendingHeadNumber (processPendingRequests_reset r s) = pendingHeadNumber s"
  "pendingHeadAngle (processPendingRequests_reset r s) = pendingHeadAngle s"
  "pendingReset (processPendingRequests_reset r s) = (pendingReset s \<and> resetAcknowledged s)"
  by (auto simp add: processPendingRequests_reset_def drainReset_def Let_def neutralPose_globals)

lemma emotion_stage_mailboxes:
  "pendingEmotion (processPendingRequests_emotion r s) = False"
  "pendingHead (processPendingRequests_emotion r s) = pendingHead s"
  "pendingHeadNumber (processPendingRequests_emotion r s) = pendingHeadNumber s"
  "pendingHeadAngle (processPendingRequests_emotion r s) = pendingHeadAngle s"
  "pendingReset (processPendingRequests_emotion r s) = pendingReset s"
  "pendingEmotion s \<Longrightarrow> current_emotion (processPendingRequests_emotion r s) = pendingEmotionValue s"
  "pendingEmotion s \<Longrightarrow> current_sentiment (processPendingRequests_emotion r s) = pendingEmotionValue s"
  "pendingEmotion s \<Longrightarrow> emotion_mode_active (processPendingRequests_emotion r s)"
  by (simp_all add: processPendingRequests_emotion_def drainEmotion_def emotionPose_globals)

lemma personCountMove_globals:
  "current_emotion (personCountMove r n s) = current_emotion s"
  "current_sentiment (personCountMove r n s) = current_sentiment s"
  "emotion_mode_active (personCountMove r n s) = emotion_mode_active s"
  "head_tracking_enabled (personCountMove r n s) = head_tracking_enabled s"
  "pendingEmotion (personCountMove r n s) = pendingEmotion s"
  "pendingEmotionValue (personCountMove r n s) = pendingEmotionValue s"
  "pendingHead (personCountMove r n s) = pendingHead s"
  "pendingHeadNumber (personCountMove r n s) = pendingHeadNumber s"
  "pendingHeadAngle (personCountMove r n s) = pendingHeadAngle s"
  "pendingReset (personCountMove r n s) = pendingReset s"
  "resetAcknowledged (personCountMove r n s) = resetAcknowledged s"
  "emotion_mode_start (personCountMove r n s) = emotion_mode_start s"
  by (simp_all add: personCountMove_def requestMove_globals Let_def split: prod.splits)

lemma head_stage_globals:
  "current_emotion (processPendingRequests_head r s) = current_emotion s"
  "current_sentiment (processPendingRequests_head r s) = current_sentiment s"
  "emotion_mode_active (processPendingRequests_head r s) = emotion_mode_active s"
  "head_tracking_enabled (processPendingRequests_head r s) = head_tracking_enabled s"
  "pendingEmotion (processPendingRequests_head r s) = pendingEmotion s"
  "pendingEmotionValue (processPendingRequests_head r s) = pendingEmotionValue s"
  "pendingHead (processPendingRequests_head r s) = False"
  "pendingReset (processPendingRequests_head r s) = pendingReset s"
  "resetAcknowledged (processPendingRequests_head r s) = resetAcknowledged s"
  "emotion_mode_start (processPendingRequests_head r s) = emotion_mode_start s"
  by (simp_all add: processPendingRequests_head_def drainHead_def requestMove_globals
        personCountMove_globals Let_def)

lemma timeout_mailboxes:
  "pendingEmotion (loop_emotionTimeout now s) = pendingEmotion s"
  "pendingEmotionValue (loop_emotionTimeout now s) = pendingEmotionValue s"
  "pendingHead (loop_emotionTimeout now s) = pendingHead s"
  "pendingHeadNumber (loop_emotionTimeout now s) = pendingHeadNumber s"
  "pendingHeadAngle (loop_emotionTimeout now s) = pendingHeadAngle s"
  "pendingReset (loop_emotionTimeout now s) = pendingReset s"
  by (simp_all add: loop_emotionTimeout_def neutralPose_globals)

lemma servos_mailboxes:
  "pendingEmotion (updateServoPositions now s) = pendingEmotion s"
  "pendingEmotionValue (updateServoPositions now s) = pendingEmotionValue s"
  "pendingHead (updateServoPositions now s) = pendingHead s"
  "pendingHeadNumber (updateServoPositions now s) = pendingHeadNumber s"
  "pendingHeadAngle (updateServoPositions now s) = pendingHeadAngle s"
  "pendingReset (updateServoPositions now s) = pendingReset s"
  unfolding updateServoPositions_eq by simp_all

lemma emotion_mailbox_kept:
  "\<not> posts_emotion e \<Longrightarrow> \<not> drains e \<Longrightarrow>
   pendingEmotion (exec s e) = pendingEmotion s \<and> pendingEmotionValue (exec s e) = pendingEmotionValue s"
  by (cases e)
     (simp_all add: onHeadHandler_def onHeadPositionHandler_def onResetHandler_def
        timeout_mailboxes servos_mailboxes Let_def split: body.splits option.splits)

lemma head_mailbox_kept:
  "\<not> posts_head e \<Longrightarrow> \<not> drains e \<Longrightarrow>
   pendingHead (exec s e) = pendingHead s \<and> pendingHeadNumber (exec s e) = pendingHeadNumber s
   \<and> pendingHeadAngle (exec s e) = pendingHeadAngle s"
  by (cases e)
     (simp_all add: onReceiveHandler_def onResetHandler_def
        timeout_mailboxes servos_mailboxes Let_def split: body.splits option.splits)

lemma reset_mailbox_kept:
  "\<not> posts_reset e \<Longrightarrow> \<not> drains e \<Longrightarrow> pendingReset (exec s e) = pendingReset s"
  by (cases e)
     (simp_all add: onReceiveHandler_def onHeadHandler_def onHeadPositionHandler_def
        timeout_mailboxes servos_mailboxes Let_def split: body.splits option.splits)

lemma emotion_mailbox_kept_run:
  "\<forall>e\<in>set es. \<not> posts_emotion e \<and> \<not> drains e \<Longrightarrow>
   pendingEmotion (foldl exec s es) = pendingEmotion s
   \<and> pendingEmotionValue (foldl exec s es) = pendingEmotionValue s"
  by (induction es arbitrary: s) (simp_all add: emotion_mailbox_kept)

lemma head_mailbox_kept_run:
  "\<forall>e\<in>set es. \<not> posts_head e \<and> \<not> drains e \<Longrightarrow>
   pendingHead (foldl exec s es) = pendingHead s
   \<and> pendingHeadNumber (foldl exec s es) = pendingHeadNumber s
   \<and> pendingHeadAngle (foldl exec s es) = pendingHeadAngle s"
  by (induction es arbitrary: s) (simp_all add: head_mailbox_kept)

lemma reset_mailbox_kept_run:
  "\<forall>e\<in>set es. \<not> posts_reset e \<and> \<not> drains e \<Longrightarrow>
   pendingReset (foldl exec s es) = pendingReset s"
  by (induction es arbitrary: s) (simp_all add: reset_mailbox_kept)

lemma post_emotion_twice:
  "d2 ''sentiment'' = Some v2 \<Longrightarrow>
   fst (drainEmotion (snd (onReceiveHandler (Parsed d2) (snd (onReceiveHandler b1 s)))))
     = Some (toLowerCase (as_String v2))"
  by (simp add: onReceiveHandler_def drainEmotion_def Let_def)

lemma post_head_number_twice:
  "d2 ''number'' = Some n2 \<Longrightarrow>
   fst (drainHead (snd (onHeadHandler (Parsed d2) (snd (onHeadHandler b1 s))))) = Some (as_int n2, -1)"
  by (simp add: onHeadHandler_def drainHead_def Let_def)

lemma post_head_angle_twice:
  "d2 ''number'' = None \<Longrightarrow> d2 ''angle'' = Some a2 \<Longrightarrow>
   fst (drainHead (snd (onHeadHandler (Parsed d2) (snd (onHeadHandler b1 s))))) = Some (-1, as_int a2)"
  by (simp add: onHeadHandler_def drainHead_def Let_def)

lemma post_reset_twice:
  "fst (drainReset t (snd (onResetHandler (snd (onResetHandler s))))) = (\<not> resetAcknowledged s)"
  by (simp add: onResetHandler_def drainReset_def)

lemma drain_twice:
  "fst (drainEmotion (snd (drainEmotion s))) = None"
  "fst (drainHead (snd (drainHead s))) = None"
  "fst (drainReset t' (snd (drainReset t s))) = False"
  by (simp_all add: drainEmotion_def drainHead_def drainReset_def)

lemma tick_drains:
  "pendingEmotion (processPendingRequests r s) = False"
  "pendingHead (processPendingRequests r s) = False"
  "pendingReset (processPendingRequests r s) = (pendingReset s \<and> resetAcknowledged s)"
  "pendingEmotion s \<Longrightarrow> current_emotion (processPendingRequests r s) = pendingEmotionValue s"
  by (simp_all add: processPendingRequests_def head_stage_globals emotion_stage_mailboxes
        reset_stage_mailboxes)

text \<open>
  Claim C3. The emotion, head and reset mailboxes hold one command each. Of two commands
  of a kind posted before a drain, the drain sees the second; a drain empties the
  mailbox, so the next drain of it finds nothing; and a posted command stays in its
  mailbox through every step that neither posts to that mailbox nor drains, until
  \<^verbatim>\<open>processPendingRequests\<close> takes it. A reset posted while an earlier one is still
  counting down is kept for a later call.
\<close>

theorem mailbox_last_write_wins_and_drained_once:
  "(de ''sentiment'' = Some v \<longrightarrow>
      fst (drainEmotion (snd (onReceiveHandler (Parsed de) (snd (onReceiveHandler b1 s)))))
        = Some (toLowerCase (as_String v)))
   \<and> (dn ''number'' = Some n \<longrightarrow>
      fst (drainHead (snd (onHeadHandler (Parsed dn) (snd (onHeadHandler b2 s))))) = Some (as_int n, -1))
   \<and> (da ''number'' = None \<and> da ''angle'' = Some a \<longrightarrow>
      fst (drainHead (snd (onHeadHandler (Parsed da) (snd (onHeadHandler b3 s))))) = Some (-1, as_int a))
   \<and> fst (drainReset t (snd (onResetHandler (snd (onResetHandler s))))) = (\<not> resetAcknowledged s)
   \<and> fst (drainEmotion (snd (drainEmotion s))) = None
   \<and> fst (drainHead (snd (drainHead s))) = None
   \<and> fst (drainReset t' (snd (drainReset t s))) = False
   \<and> ((\<forall>e\<in>set ese. \<not> posts_emotion e \<and> \<not> drains e) \<longrightarrow>
        pendingEmotion (foldl exec s ese) = pendingEmotion s
        \<and> pendingEmotionValue (foldl exec s ese) = pendingEmotionValue s)
   \<and> ((\<forall>e\<in>set esh. \<not> posts_head e \<and> \<not> drains e) \<longrightarrow>
        pendingHead (foldl exec s esh) = pendingHead s
        \<and> pendingHeadNumber (foldl exec s esh) = pendingHeadNumber s
        \<and> pendingHeadAngle (foldl exec s esh) = pendingHeadAngle s)
   \<and> ((\<forall>e\<in>set esr. \<not> posts_reset e \<and> \<not> drains e) \<longrightarrow>
        pendingReset (foldl exec s esr) = pendingReset s)
   \<and> pendingEmotion (processPendingRequests r s) = False
   \<and> pendingHead (processPendingRequests r s) = False
   \<and> pendingReset (processPendingRequests r s) = (pendingReset s \<and> resetAcknowledged s)
   \<and> (pendingEmotion s \<longrightarrow> current_emotion (processPendingRequests r s) = pendingEmotionValue s)"
  by (simp add: post_emotion_twice post_head_number_twice post_head_angle_twice post_reset_twice
        drain_twice emotion_mailbox_kept_run head_mailbox_kept_run reset_mailbox_kept_run tick_drains)

theorem mailbox_last_write_wins_and_drained_once_witness:
  "[''sentiment'' \<mapsto> \<lparr>as_int = 0, as_String = ''Sad''\<rparr>] ''sentiment''
      = Some \<lparr>as_int = 0, as_String = ''Sad''\<rparr>
   \<and> fst (drainEmotion (snd (onReceiveHandler (Parsed [''sentiment'' \<mapsto> \<lparr>as_int = 0, as_String = ''Sad''\<rparr>])
              (snd (onReceiveHandler (Parsed [''sentiment'' \<mapsto> \<lparr>as_int = 0, as_String = ''angry''\<rparr>]) init_robot)))))
        = Some ''sad''
   \<and> fst (drainHead (snd (onHeadHandler (Parsed [''number'' \<mapsto> \<lparr>as_int = 2, as_String = ''2''\<rparr>])
              (snd (onHeadHandler (Parsed [''angle'' \<mapsto> \<lparr>as_int = 100, as_String = ''100''\<rparr>]) init_robot)))))
        = Some (2, -1)
   \<and> fst (drainHead (snd (onHeadHandler (Parsed [''angle'' \<mapsto> \<lparr>as_int = 100, as_String = ''100''\<rparr>])
              (snd (onHeadHandler (Parsed [''number'' \<mapsto> \<lparr>as_int = 2, as_String = ''2''\<rparr>]) init_robot)))))
        = Some (-1, 100)
   \<and> pendingEmotion (foldl exec (snd (onReceiveHandler (Parsed [''sentiment'' \<mapsto> \<lparr>as_int = 0, as_String = ''Sad''\<rparr>]) init_robot))
        [PostReset, UpdateServos 30, EmotionTimeout 40])
   \<and> pendingReset (processPendingRequests \<lparr>t_ack = 10, t_elapsed = 10, t_emotion = 10, t_head = 10, rnd = 0, uninit = 0\<rparr>
        (init_robot\<lparr>pendingReset := True, resetAcknowledged := True, resetStartTime := 5\<rparr>))
   \<and> current_emotion (processPendingRequests \<lparr>t_ack = 10, t_elapsed = 10, t_emotion = 10, t_head = 10, rnd = 0, uninit = 0\<rparr>
        (snd (onReceiveHandler (Parsed [''sentiment'' \<mapsto> \<lparr>as_int = 0, as_String = ''Sad''\<rparr>]) init_robot))) = ''sad''"
proof -
  let ?sad = "\<lparr>as_int = 0, as_String = ''Sad''\<rparr>"
  let ?two = "\<lparr>as_int = 2, as_String = ''2''\<rparr>"
  let ?hundred = "\<lparr>as_int = 100, as_String = ''100''\<rparr>"
  let ?r = "\<lparr>t_ack = 10, t_elapsed = 10, t_emotion = 10, t_head = 10, rnd = 0, uninit = 0\<rparr>"
  let ?posted = "snd (onReceiveHandler (Parsed [''sentiment'' \<mapsto> ?sad]) init_robot)"
  have h1: "[''sentiment'' \<mapsto> ?sad] ''sentiment'' = Some ?sad" by simp
  have h2: "[''number'' \<mapsto> ?two] ''number'' = Some ?two" by simp
  have h3: "[''angle'' \<mapsto> ?hundred] ''number'' = None \<and> [''angle'' \<mapsto> ?hundred] ''angle'' = Some ?hundred"
    by simp
  have h4: "\<forall>e\<in>set [PostReset, UpdateServos 30, EmotionTimeout 40]. \<not> posts_emotion e \<and> \<not> drains e"
    by simp
  have low: "toLowerCase ''Sad'' = ''sad''" by code_simp
  have p: "pendingEmotion ?posted" "pendingEmotionValue ?posted = ''sad''"
    by code_simp+
  have q: "pendingReset (init_robot\<lparr>pendingReset := True, resetAcknowledged := True, resetStartTime := 5\<rparr>)
     \<and> resetAcknowledged (init_robot\<lparr>pendingReset := True, resetAcknowledged := True, resetStartTime := 5\<rparr>)"
    by simp
  note a = mailbox_last_write_wins_and_drained_once[where de = "[''sentiment'' \<mapsto> ?sad]" and v = ?sad
     and ?b1.0 = "Parsed [''sentiment'' \<mapsto> \<lparr>as_int = 0, as_String = ''angry''\<rparr>]" and s = init_robot
     and dn = "[''number'' \<mapsto> ?two]" and n = ?two and ?b2.0 = "Parsed [''angle'' \<mapsto> ?hundred]"
     and da = "[''angle'' \<mapsto> ?hundred]" and a = ?hundred and ?b3.0 = "Parsed [''number'' \<mapsto> ?two]"]
  note b = mailbox_last_write_wins_and_drained_once[where s = ?posted and r = ?r
             and ese = "[PostReset, UpdateServos 30, EmotionTimeout 40]"]
  note c = mailbox_last_write_wins_and_drained_once[where r = ?r
             and s = "init_robot\<lparr>pendingReset := True, resetAcknowledged := True, resetStartTime := 5\<rparr>"]
  from a h1 low have e1: "fst (drainEmotion (snd (onReceiveHandler (Parsed [''sentiment'' \<mapsto> ?sad])
              (snd (onReceiveHandler (Parsed [''sentiment'' \<mapsto> \<lparr>as_int = 0, as_String = ''angry''\<rparr>]) init_robot)))))
        = Some ''sad''"
    by simp
  from a h2 have e2: "fst (drainHead (snd (onHeadHandler (Parsed [''number'' \<mapsto> ?two])
              (snd (onHeadHandler (Parsed [''angle'' \<mapsto> ?hundred]) init_robot))))) = Some (2, -1)"
    by simp
  from a h3 have e3: "fst (drainHead (snd (onHeadHandler (Parsed [''angle'' \<mapsto> ?hundred])
              (snd (onHeadHandler (Parsed [''number'' \<mapsto> ?two]) init_robot))))) = Some (-1, 100)"
    by simp
  from b h4 p have e4: "pendingEmotion (foldl exec ?posted [PostReset, UpdateServos 30, EmotionTimeout 40])"
    by blast
  from c q have e5: "pendingReset (processPendingRequests ?r
        (init_robot\<lparr>pendingReset := True, resetAcknowledged := True, resetStartTime := 5\<rparr>))"
    by blast
  from b p have e6: "current_emotion (processPendingRequests ?r ?posted) = ''sad''"
    by metis
  show ?thesis using h1 e1 e2 e3 e4 e5 e6 by blast
qed

lemma head_stage_sentinel:
  "pendingHead u \<Longrightarrow> pendingHeadNumber u = -1 \<Longrightarrow> pendingHeadAngle u = -1 \<Longrightarrow>
   processPendingRequests_head r u = snd (drainHead u)"
  by (simp add: processPendingRequests_head_def drainHead_def)

lemma head_stage_direct_angle:
  "pendingHead u \<Longrightarrow> pendingHeadAngle u \<noteq> -1 \<Longrightarrow> \<not> emotion_mode_active u \<Longrightarrow>
   head_tracking_enabled u \<Longrightarrow>
   headState (processPendingRequests_head r u)
     = moveServoSafely (headState u) (constrain (pendingHeadAngle u) (minPos (headState u)) (maxPos (headState u)))"
  by (simp add: processPendingRequests_head_def drainHead_def Let_def)

lemma head_stage_blocked:
  "emotion_mode_active u \<Longrightarrow> processPendingRequests_head r u = snd (drainHead u)"
  by (simp add: processPendingRequests_head_def drainHead_def)

lemma drainHead_headState: "headState (snd (drainHead u)) = headState u"
  by (simp add: drainHead_def)

text \<open>
  Claim C10. A \<^verbatim>\<open>/head\<close> body whose only command is \<^verbatim>\<open>"angle": -1\<close> is answered with
  200 and queued; the drain copies out \<open>(-1, -1)\<close>, which passes neither the test
  \<^verbatim>\<open>angle != -1\<close> nor \<^verbatim>\<open>number != -1\<close>: the head stage of
  \<^verbatim>\<open>processPendingRequests\<close> only empties the mailbox and the head axis stays as the
  earlier stages left it. Any other angle, with tracking enabled and no emotion mode,
  reaches \<^verbatim>\<open>moveServoSafely\<close>.
\<close>

theorem minus_one_angle_is_dropped:
  "d ''number'' = None \<and> d ''angle'' = Some v \<longrightarrow>
     (as_int v = -1 \<longrightarrow>
        fst (onHeadHandler (Parsed d) s)
          = Response 200 [(''status'', JStr ''head_angle_queued''), (''angle'', JNum (-1))]
        \<and> pendingHead (snd (onHeadHandler (Parsed d) s))
        \<and> fst (drainHead (snd (onHeadHandler (Parsed d) s))) = Some (-1, -1)
        \<and> processPendingRequests_head r (snd (onHeadHandler (Parsed d) s))
            = s\<lparr>pendingHeadAngle := -1, pendingHeadNumber := -1, pendingHead := False\<rparr>
        \<and> headState (processPendingRequests_head r (snd (onHeadHandler (Parsed d) s))) = headState s
        \<and> processPendingRequests r (snd (onHeadHandler (Parsed d) s))
            = snd (drainHead (processPendingRequests_emotion r
                     (processPendingRequests_reset r (snd (onHeadHandler (Parsed d) s)))))
        \<and> headState (processPendingRequests r (snd (onHeadHandler (Parsed d) s)))
            = headState (processPendingRequests_emotion r
                     (processPendingRequests_reset r (snd (onHeadHandler (Parsed d) s)))))
     \<and> (as_int v \<noteq> -1 \<and> \<not> emotion_mode_active s \<and> head_tracking_enabled s \<longrightarrow>
        headState (processPendingRequests_head r (snd (onHeadHandler (Parsed d) s)))
          = moveServoSafely (headState s) (constrain (as_int v) (minPos (headState s)) (maxPos (headState s))))"
proof (intro impI conjI; (elim conjE)?)
  assume d: "d ''number'' = None" "d ''angle'' = Some v"
  let ?s' = "snd (onHeadHandler (Parsed d) s)"
  have post: "?s' = s\<lparr>pendingHeadAngle := as_int v, pendingHeadNumber := -1, pendingHead := True\<rparr>"
    using d by (simp add: onHeadHandler_def Let_def)
  {
    assume m: "as_int v = -1"
    show "fst (onHeadHandler (Parsed d) s)
          = Response 200 [(''status'', JStr ''head_angle_queued''), (''angle'', JNum (-1))]"
      using d m by (simp add: onHeadHandler_def Let_def)
    show "pendingHead ?s'" unfolding post by simp
    show "fst (drainHead ?s') = Some (-1, -1)" unfolding post using m by (simp add: drainHead_def)
    show "processPendingRequests_head r ?s'
            = s\<lparr>pendingHeadAngle := -1, pendingHeadNumber := -1, pendingHead := False\<rparr>"
      unfolding post using m by (simp add: processPendingRequests_head_def drainHead_def)
    then show "headState (processPendingRequests_head r ?s') = headState s" by simp
    let ?u = "processPendingRequests_emotion r (processPendingRequests_reset r ?s')"
    have u: "pendingHead ?u" "pendingHeadNumber ?u = -1" "pendingHeadAngle ?u = -1"
      unfolding emotion_stage_mailboxes reset_stage_mailboxes post using m by simp_all
    show "processPendingRequests r ?s' = snd (drainHead ?u)"
      unfolding processPendingRequests_def by (rule head_stage_sentinel[OF u])
    then show "headState (processPendingRequests r ?s') = headState ?u"
      by (simp add: drainHead_headState)
  }
  {
    assume m: "as_int v \<noteq> -1" and g: "\<not> emotion_mode_active s" "head_tracking_enabled s"
    show "headState (processPendingRequests_head r ?s')
          = moveServoSafely (headState s) (constrain (as_int v) (minPos (headState s)) (maxPos (headState s)))"
      unfolding post using m g by (simp add: head_stage_direct_angle)
  }
qed

theorem minus_one_angle_is_dropped_witness:
  "[''angle'' \<mapsto> \<lparr>as_int = -1, as_String = ''-1''\<rparr>] ''number'' = None
   \<and> [''angle'' \<mapsto> \<lparr>as_int = -1, as_String = ''-1''\<rparr>] ''angle'' = Some \<lparr>as_int = -1, as_String = ''-1''\<rparr>
   \<and> as_int \<lparr>as_int = -1, as_String = ''-1''\<rparr> = -1
   \<and> fst (onHeadHandler (Parsed [''angle'' \<mapsto> \<lparr>as_int = -1, as_String = ''-1''\<rparr>]) init_robot)
        = Response 200 [(''status'', JStr ''head_angle_queued''), (''angle'', JNum (-1))]
   \<and> headState (processPendingRequests \<lparr>t_ack = 10, t_elapsed = 10, t_emotion = 10, t_head = 5000, rnd = 0, uninit = 0\<rparr>
        (snd (onHeadHandler (Parsed [''angle'' \<mapsto> \<lparr>as_int = -1, as_String = ''-1''\<rparr>]) init_robot)))
        = headState init_robot
   \<and> as_int \<lparr>as_int = 100, as_String = ''100''\<rparr> \<noteq> -1
   \<and> \<not> emotion_mode_active init_robot \<and> head_tracking_enabled init_robot
   \<and> targetPos (headState (processPendingRequests_head \<lparr>t_ack = 10, t_elapsed = 10, t_emotion = 10, t_head = 5000, rnd = 0, uninit = 0\<rparr>
        (snd (onHeadHandler (Parsed [''angle'' \<mapsto> \<lparr>as_int = 100, as_String = ''100''\<rparr>]) init_robot)))) = 100"
proof -
  let ?m = "\<lparr>as_int = -1, as_String = ''-1''\<rparr>"
  let ?h = "\<lparr>as_int = 100, as_String = ''100''\<rparr>"
  let ?r = "\<lparr>t_ack = 10, t_elapsed = 10, t_emotion = 10, t_head = 5000, rnd = 0, uninit = 0\<rparr>"
  have h1: "[''angle'' \<mapsto> ?m] ''number'' = None \<and> [''angle'' \<mapsto> ?m] ''angle'' = Some ?m" by simp
  have h2: "as_int ?m = -1" by simp
  have h3: "[''angle'' \<mapsto> ?h] ''number'' = None \<and> [''angle'' \<mapsto> ?h] ''angle'' = Some ?h" by simp
  have h4: "as_int ?h \<noteq> -1 \<and> \<not> emotion_mode_active init_robot \<and> head_tracking_enabled init_robot"
    by (simp add: init_robot_def)
  have before: "headState (processPendingRequests_emotion ?r (processPendingRequests_reset ?r
                  (snd (onHeadHandler (Parsed [''angle'' \<mapsto> ?m]) init_robot)))) = headState init_robot"
    by code_simp
  have tgt: "targetPos (moveServoSafely (headState init_robot)
               (constrain (as_int ?h) (minPos (headState init_robot)) (maxPos (headState init_robot)))) = 100"
    by code_simp
  note a = minus_one_angle_is_dropped[where d = "[''angle'' \<mapsto> ?m]" and v = ?m and s = init_robot and r = ?r]
  note b = minus_one_angle_is_dropped[where d = "[''angle'' \<mapsto> ?h]" and v = ?h and s = init_robot and r = ?r]
  from a h1 h2 have e1: "fst (onHeadHandler (Parsed [''angle'' \<mapsto> ?m]) init_robot)
        = Response 200 [(''status'', JStr ''head_angle_queued''), (''angle'', JNum (-1))]"
    by blast
  from a h1 h2 have "headState (processPendingRequests ?r (snd (onHeadHandler (Parsed [''angle'' \<mapsto> ?m]) init_robot)))
      = headState (processPendingRequests_emotion ?r (processPendingRequests_reset ?r
                  (snd (onHeadHandler (Parsed [''angle'' \<mapsto> ?m]) init_robot))))"
    by blast
  then have e2: "headState (processPendingRequests ?r (snd (onHeadHandler (Parsed [''angle'' \<mapsto> ?m]) init_robot)))
      = headState init_robot"
    unfolding before .
  from b h3 h4 have "headState (processPendingRequests_head ?r (snd (onHeadHandler (Parsed [''angle'' \<mapsto> ?h]) init_robot)))
      = moveServoSafely (headState init_robot)
               (constrain (as_int ?h) (minPos (headState init_robot)) (maxPos (headState init_robot)))"
    by blast
  then have e3: "targetPos (headState (processPendingRequests_head ?r
        (snd (onHeadHandler (Parsed [''angle'' \<mapsto> ?h]) init_robot)))) = 100"
    using tgt by simp
  show ?thesis using h1 h2 h4 e1 e2 e3 by blast
qed

text \<open>
  Claim C7, as stated, fails on \<^verbatim>\<open>onHeadHandler\<close>: a body with both members is
  queued as a person count and the angle is thrown away.
\<close>

theorem onHeadHandler_prefers_number:
  "fst (onHeadHandler (Parsed [''angle'' \<mapsto> \<lparr>as_int = 100, as_String = ''100''\<rparr>,
                               ''number'' \<mapsto> \<lparr>as_int = 3, as_String = ''3''\<rparr>]) init_robot)
     = Response 200 [(''status'', JStr ''head_number_queued''), (''number'', JNum 3)]
   \<and> pendingHeadNumber (snd (onHeadHandler (Parsed [''angle'' \<mapsto> \<lparr>as_int = 100, as_String = ''100''\<rparr>,
                               ''number'' \<mapsto> \<lparr>as_int = 3, as_String = ''3''\<rparr>]) init_robot)) = 3
   \<and> pendingHeadAngle (snd (onHeadHandler (Parsed [''angle'' \<mapsto> \<lparr>as_int = 100, as_String = ''100''\<rparr>,
                               ''number'' \<mapsto> \<lparr>as_int = 3, as_String = ''3''\<rparr>]) init_robot)) = -1"
  by (simp add: onHeadHandler_def)

text \<open>
  Claim C7, amended. In \<^verbatim>\<open>onHeadHandler\<close> (FastLED sketch) \<^verbatim>\<open>number\<close> takes precedence:
  whenever it is present the person count is queued and the angle slot is set to
  \<open>-1\<close>, whatever \<^verbatim>\<open>angle\<close> holds; the angle is queued only when \<^verbatim>\<open>number\<close> is absent.
  In \<^verbatim>\<open>handleHeadRequest\<close> (\<^verbatim>\<open>sketch_aug2a\<close>) \<^verbatim>\<open>angle\<close> takes precedence: whenever it
  is present and the request is not refused, the task carries the angle, whatever
  \<^verbatim>\<open>number\<close> holds.
\<close>

theorem head_request_field_precedence:
  "(d ''number'' = Some n \<longrightarrow>
      onHeadHandler (Parsed d) s =
        (Response 200 [(''status'', JStr ''head_number_queued''), (''number'', JNum (as_int n))],
         s\<lparr>pendingHeadNumber := as_int n, pendingHeadAngle := -1, pendingHead := True\<rparr>))
   \<and> (d ''number'' = None \<and> d ''angle'' = Some a \<longrightarrow>
      onHeadHandler (Parsed d) s =
        (Response 200 [(''status'', JStr ''head_angle_queued''), (''angle'', JNum (as_int a))],
         s\<lparr>pendingHeadAngle := as_int a, pendingHeadNumber := -1, pendingHead := True\<rparr>))
   \<and> (\<not> server_busy q \<and> \<not> emotion_mode_active_aug2a q \<and> d ''angle'' = Some a \<longrightarrow>
      handleHeadRequest (Parsed d) q =
        (Response 200 [(''status'', JStr ''ok'')],
         q\<lparr>currentTask := (currentTask q)\<lparr>has_head_task := True, head_angle := as_int a\<rparr>,
           server_busy := False\<rparr>))"
  by (simp add: onHeadHandler_def handleHeadRequest_def Let_def)

theorem head_request_field_precedence_witness:
  "[''angle'' \<mapsto> \<lparr>as_int = 100, as_String = ''100''\<rparr>, ''number'' \<mapsto> \<lparr>as_int = 3, as_String = ''3''\<rparr>] ''number''
      = Some \<lparr>as_int = 3, as_String = ''3''\<rparr>
   \<and> pendingHeadNumber (snd (onHeadHandler (Parsed [''angle'' \<mapsto> \<lparr>as_int = 100, as_String = ''100''\<rparr>,
                               ''number'' \<mapsto> \<lparr>as_int = 3, as_String = ''3''\<rparr>]) init_robot)) = 3
   \<and> [''angle'' \<mapsto> \<lparr>as_int = 100, as_String = ''100''\<rparr>] ''number'' = None
   \<and> pendingHeadAngle (snd (onHeadHandler (Parsed [''angle'' \<mapsto> \<lparr>as_int = 100, as_String = ''100''\<rparr>]) init_robot)) = 100
   \<and> \<not> server_busy init_aug2a \<and> \<not> emotion_mode_active_aug2a init_aug2a
   \<and> head_angle (currentTask (snd (handleHeadRequest (Parsed [''angle'' \<mapsto> \<lparr>as_int = 100, as_String = ''100''\<rparr>,
                               ''number'' \<mapsto> \<lparr>as_int = 3, as_String = ''3''\<rparr>]) init_aug2a))) = 100"
proof -
  let ?a = "\<lparr>as_int = 100, as_String = ''100''\<rparr>"
  let ?n = "\<lparr>as_int = 3, as_String = ''3''\<rparr>"
  let ?both = "[''angle'' \<mapsto> ?a, ''number'' \<mapsto> ?n]"
  have h1: "?both ''number'' = Some ?n" by simp
  have h2: "[''angle'' \<mapsto> ?a] ''number'' = None \<and> [''angle'' \<mapsto> ?a] ''angle'' = Some ?a" by simp
  have h3: "\<not> server_busy init_aug2a \<and> \<not> emotion_mode_active_aug2a init_aug2a \<and> ?both ''angle'' = Some ?a"
    by (simp add: init_aug2a_def)
  note t1 = head_request_field_precedence[where d = ?both and n = ?n and s = init_robot and q = init_aug2a and a = ?a]
  note t2 = head_request_field_precedence[where d = "[''angle'' \<mapsto> ?a]" and a = ?a and s = init_robot]
  from t1 h1 have e1: "pendingHeadNumber (snd (onHeadHandler (Parsed ?both) init_robot)) = 3" by simp
  from t2 h2 have e2: "pendingHeadAngle (snd (onHeadHandler (Parsed [''angle'' \<mapsto> ?a]) init_robot)) = 100" by simp
  from t1 h3 have e3: "head_angle (currentTask (snd (handleHeadRequest (Parsed ?both) init_aug2a))) = 100" by simp
  show ?thesis using h1 h2 h3 e1 e2 e3 by blast
qed

lemma updateArmPose_globals:
  "current_emotion_aug2a (updateArmPose q) = current_emotion_aug2a q"
  "emotion_mode_active_aug2a (updateArmPose q) = emotion_mode_active_aug2a q"
  "head_tracking_enabled_aug2a (updateArmPose q) = head_tracking_enabled_aug2a q"
  "server_busy (updateArmPose q) = server_busy q"
  "currentTask (updateArmPose q) = currentTask q"
  "headState_aug2a (updateArmPose q) = headState_aug2a q"
  by (simp_all add: updateArmPose_def Let_def)

lemma moveHead_aug2a_globals:
  "current_emotion_aug2a (moveHead_aug2a a q) = current_emotion_aug2a q"
  "emotion_mode_active_aug2a (moveHead_aug2a a q) = emotion_mode_active_aug2a q"
  "head_tracking_enabled_aug2a (moveHead_aug2a a q) = head_tracking_enabled_aug2a q"
  "server_busy (moveHead_aug2a a q) = server_busy q"
  "currentTask (moveHead_aug2a a q) = currentTask q"
  "leftArmState_aug2a (moveHead_aug2a a q) = leftArmState_aug2a q"
  "rightArmState_aug2a (moveHead_aug2a a q) = rightArmState_aug2a q"
  by (simp_all add: moveHead_aug2a_def)

lemma processSimpleTasks_emotion_label:
  "has_emotion_task (currentTask q) \<Longrightarrow>
   current_emotion_aug2a (processSimpleTasks t q) = emotion_data (currentTask q)
   \<and> emotion_mode_active_aug2a (processSimpleTasks t q)"
  by (simp add: processSimpleTasks_def processSimpleTasks_emotion_def processSimpleTasks_head_def
        Let_def updateArmPose_globals moveHead_aug2a_globals)

lemma receive_aug2a:
  "\<not> server_busy q \<Longrightarrow> d ''sentiment'' = Some v \<Longrightarrow>
   handleReceiveRequest (Parsed d) q =
     (Response 200 [(''status'', JStr ''ok'')],
      q\<lparr>currentTask := (currentTask q)\<lparr>has_emotion_task := True, emotion_data := as_String v\<rparr>,
        server_busy := False\<rparr>)"
  by (simp add: handleReceiveRequest_def Let_def)

lemma receive_fastled:
  "d ''sentiment'' = Some v \<Longrightarrow>
   onReceiveHandler (Parsed d) s =
     (Response 200 [(''status'', JStr ''emotion_queued''), (''emotion'', JStr (toLowerCase (as_String v)))],
      s\<lparr>pendingEmotionValue := toLowerCase (as_String v), pendingEmotion := True\<rparr>)"
  by (simp add: onReceiveHandler_def Let_def)

lemma tick_emotion_applied:
  "pendingEmotion s \<Longrightarrow>
   current_emotion (processPendingRequests r s) = pendingEmotionValue s
   \<and> current_sentiment (processPendingRequests r s) = pendingEmotionValue s
   \<and> emotion_mode_active (processPendingRequests r s)
   \<and> \<not> head_tracking_enabled (processPendingRequests r s)
   \<and> emotion_mode_start (processPendingRequests r s) = t_emotion r"
  by (simp add: processPendingRequests_def head_stage_globals processPendingRequests_emotion_def
        drainEmotion_def emotionPose_globals reset_stage_mailboxes)

text \<open>
  Claim C6, as stated, fails on \<^verbatim>\<open>handleReceiveRequest\<close> of \<^verbatim>\<open>sketch_aug2a\<close>: the
  sentiment \<^verbatim>\<open>ANGRY\<close> is queued, applied and reported in upper case, and it gets
  the default arm pose (right arm 0) where \<^verbatim>\<open>angry\<close> gets the angry one (right arm 150).
\<close>

theorem handleReceiveRequest_keeps_case:
  "emotion_data (currentTask (snd (handleReceiveRequest
      (Parsed [''sentiment'' \<mapsto> \<lparr>as_int = 0, as_String = ''ANGRY''\<rparr>]) init_aug2a))) = ''ANGRY''
   \<and> current_emotion_aug2a (processSimpleTasks 100 (snd (handleReceiveRequest
      (Parsed [''sentiment'' \<mapsto> \<lparr>as_int = 0, as_String = ''ANGRY''\<rparr>]) init_aug2a))) = ''ANGRY''
   \<and> members (handleStatusRequest 0 (processSimpleTasks 100 (snd (handleReceiveRequest
      (Parsed [''sentiment'' \<mapsto> \<lparr>as_int = 0, as_String = ''ANGRY''\<rparr>]) init_aug2a))))
       = [(''emotion'', JStr ''ANGRY''), (''head'', JNum 90), (''heap'', JNum 0)]
   \<and> targetPos (rightArmState_aug2a (processSimpleTasks 100 (snd (handleReceiveRequest
      (Parsed [''sentiment'' \<mapsto> \<lparr>as_int = 0, as_String = ''ANGRY''\<rparr>]) init_aug2a)))) = 0
   \<and> targetPos (rightArmState_aug2a (processSimpleTasks 100 (snd (handleReceiveRequest
      (Parsed [''sentiment'' \<mapsto> \<lparr>as_int = 0, as_String = ''angry''\<rparr>]) init_aug2a)))) = 150"
  by code_simp

text \<open>
  Claim C6, amended. \<^verbatim>\<open>onReceiveHandler\<close> (FastLED sketch) lower-cases the sentiment
  before it queues it: the response echoes the lower-cased label, the mailbox holds it,
  and after \<^verbatim>\<open>processPendingRequests\<close> the emotion and the sentiment are that label,
  emotion mode is set, and \<^verbatim>\<open>/status\<close> reports both; \<^verbatim>\<open>ANGRY\<close> becomes \<^verbatim>\<open>angry\<close>.
  \<^verbatim>\<open>handleReceiveRequest\<close> (\<^verbatim>\<open>sketch_aug2a\<close>) queues the sentiment as received, and
  \<^verbatim>\<open>processSimpleTasks\<close> makes it the emotion unchanged, with emotion mode set.
\<close>

theorem sentiment_lower_cased_by_onReceiveHandler_only:
  "toLowerCase ''ANGRY'' = ''angry''
   \<and> (d ''sentiment'' = Some v \<longrightarrow>
        fst (onReceiveHandler (Parsed d) s)
          = Response 200 [(''status'', JStr ''emotion_queued''), (''emotion'', JStr (toLowerCase (as_String v)))]
        \<and> pendingEmotion (snd (onReceiveHandler (Parsed d) s))
        \<and> pendingEmotionValue (snd (onReceiveHandler (Parsed d) s)) = toLowerCase (as_String v)
        \<and> current_emotion (processPendingRequests r (snd (onReceiveHandler (Parsed d) s)))
            = toLowerCase (as_String v)
        \<and> current_sentiment (processPendingRequests r (snd (onReceiveHandler (Parsed d) s)))
            = toLowerCase (as_String v)
        \<and> emotion_mode_active (processPendingRequests r (snd (onReceiveHandler (Parsed d) s)))
        \<and> processPendingRequests_emotion r (snd (onReceiveHandler (Parsed d) s))
            = emotionPose (toLowerCase (as_String v))
                (s\<lparr>pendingEmotion := False, pendingEmotionValue := '''',
                   current_sentiment := toLowerCase (as_String v),
                   current_emotion := toLowerCase (as_String v),
                   emotion_mode_active := True, head_tracking_enabled := False,
                   emotion_mode_start := t_emotion r\<rparr>)
        \<and> map_of (members (onStatusHandler hw (processPendingRequests r (snd (onReceiveHandler (Parsed d) s)))))
             ''emotion'' = Some (JStr (toLowerCase (as_String v)))
        \<and> map_of (members (onStatusHandler hw (processPendingRequests r (snd (onReceiveHandler (Parsed d) s)))))
             ''emotion_mode'' = Some (JBool True))
   \<and> (\<not> server_busy q \<and> d ''sentiment'' = Some v \<longrightarrow>
        emotion_data (currentTask (snd (handleReceiveRequest (Parsed d) q))) = as_String v
        \<and> has_emotion_task (currentTask (snd (handleReceiveRequest (Parsed d) q)))
        \<and> current_emotion_aug2a (processSimpleTasks t (snd (handleReceiveRequest (Parsed d) q))) = as_String v
        \<and> emotion_mode_active_aug2a (processSimpleTasks t (snd (handleReceiveRequest (Parsed d) q))))"
proof (intro conjI impI; (elim conjE)?)
  show "toLowerCase ''ANGRY'' = ''angry''" by code_simp
next
  assume d: "d ''sentiment'' = Some v"
  let ?s' = "snd (onReceiveHandler (Parsed d) s)"
  have p: "pendingEmotion ?s'" "pendingEmotionValue ?s' = toLowerCase (as_String v)"
    unfolding receive_fastled[of d v s, OF d] by simp_all
  note ap = tick_emotion_applied[OF p(1), of r, unfolded p(2)]
  show "fst (onReceiveHandler (Parsed d) s)
          = Response 200 [(''status'', JStr ''emotion_queued''), (''emotion'', JStr (toLowerCase (as_String v)))]"
    unfolding receive_fastled[of d v s, OF d] by simp
  show "pendingEmotion ?s'" by (rule p)
  show "pendingEmotionValue ?s' = toLowerCase (as_String v)" by (rule p)
  show "current_emotion (processPendingRequests r ?s') = toLowerCase (as_String v)" using ap by blast
  show "current_sentiment (processPendingRequests r ?s') = toLowerCase (as_String v)" using ap by blast
  show "emotion_mode_active (processPendingRequests r ?s')" using ap by blast
  show "processPendingRequests_emotion r ?s'
            = emotionPose (toLowerCase (as_String v))
                (s\<lparr>pendingEmotion := False, pendingEmotionValue := '''',
                   current_sentiment := toLowerCase (as_String v),
                   current_emotion := toLowerCase (as_String v),
                   emotion_mode_active := True, head_tracking_enabled := False,
                   emotion_mode_start := t_emotion r\<rparr>)"
    unfolding receive_fastled[of d v s, OF d]
    by (simp add: processPendingRequests_emotion_def drainEmotion_def)
  show "map_of (members (onStatusHandler hw (processPendingRequests r ?s'))) ''emotion''
          = Some (JStr (toLowerCase (as_String v)))"
    using ap by (simp add: onStatusHandler_def)
  show "map_of (members (onStatusHandler hw (processPendingRequests r ?s'))) ''emotion_mode''
          = Some (JBool True)"
    using ap by (simp add: onStatusHandler_def)
next
  assume b: "\<not> server_busy q" and d: "d ''sentiment'' = Some v"
  let ?q' = "snd (handleReceiveRequest (Parsed d) q)"
  have t: "has_emotion_task (currentTask ?q')" "emotion_data (currentTask ?q') = as_String v"
    unfolding receive_aug2a[of q d v, OF b d] by simp_all
  show "emotion_data (currentTask ?q') = as_String v" by (rule t)
  show "has_emotion_task (currentTask ?q')" by (rule t)
  show "current_emotion_aug2a (processSimpleTasks t ?q') = as_String v"
    using processSimpleTasks_emotion_label[OF t(1), of t] t(2) by simp
  show "emotion_mode_active_aug2a (processSimpleTasks t ?q')"
    using processSimpleTasks_emotion_label[OF t(1), of t] by simp
qed

theorem sentiment_lower_cased_by_onReceiveHandler_only_witness:
  "[''sentiment'' \<mapsto> \<lparr>as_int = 0, as_String = ''ANGRY''\<rparr>] ''sentiment''
      = Some \<lparr>as_int = 0, as_String = ''ANGRY''\<rparr>
   \<and> pendingEmotionValue (snd (onReceiveHandler
        (Parsed [''sentiment'' \<mapsto> \<lparr>as_int = 0, as_String = ''ANGRY''\<rparr>]) init_robot)) = ''angry''
   \<and> current_emotion (processPendingRequests
        \<lparr>t_ack = 10, t_elapsed = 10, t_emotion = 10, t_head = 10, rnd = 0, uninit = 0\<rparr>
        (snd (onReceiveHandler (Parsed [''sentiment'' \<mapsto> \<lparr>as_int = 0, as_String = ''ANGRY''\<rparr>]) init_robot)))
        = ''angry''
   \<and> emotion_mode_active (processPendingRequests
        \<lparr>t_ack = 10, t_elapsed = 10, t_emotion = 10, t_head = 10, rnd = 0, uninit = 0\<rparr>
        (snd (onReceiveHandler (Parsed [''sentiment'' \<mapsto> \<lparr>as_int = 0, as_String = ''ANGRY''\<rparr>]) init_robot)))
   \<and> targetPos (rightArmState (processPendingRequests_emotion
        \<lparr>t_ack = 10, t_elapsed = 10, t_emotion = 10, t_head = 10, rnd = 0, uninit = 0\<rparr>
        (snd (onReceiveHandler (Parsed [''sentiment'' \<mapsto> \<lparr>as_int = 0, as_String = ''ANGRY''\<rparr>]) init_robot))))
        = 135
   \<and> \<not> server_busy init_aug2a
   \<and> current_emotion_aug2a (processSimpleTasks 100 (snd (handleReceiveRequest
        (Parsed [''sentiment'' \<mapsto> \<lparr>as_int = 0, as_String = ''ANGRY''\<rparr>]) init_aug2a))) = ''ANGRY''"
proof -
  let ?v = "\<lparr>as_int = 0, as_String = ''ANGRY''\<rparr>"
  let ?d = "[''sentiment'' \<mapsto> ?v]"
  let ?r = "\<lparr>t_ack = 10, t_elapsed = 10, t_emotion = 10, t_head = 10, rnd = 0, uninit = 0\<rparr>"
  have h1: "?d ''sentiment'' = Some ?v" by simp
  have h2: "\<not> server_busy init_aug2a" by (simp add: init_aug2a_def)
  note th = sentiment_lower_cased_by_onReceiveHandler_only[where d = ?d and v = ?v and s = init_robot
              and r = ?r and q = init_aug2a and t = 100]
  from th have low: "toLowerCase ''ANGRY'' = ''angry''" by (rule conjunct1)
  from th h1 low have e1: "pendingEmotionValue (snd (onReceiveHandler (Parsed ?d) init_robot)) = ''angry''"
    by simp
  from th h1 low have e2: "current_emotion (processPendingRequests ?r (snd (onReceiveHandler (Parsed ?d) init_robot)))
        = ''angry''"
    by simp
  from th h1 have e3: "emotion_mode_active (processPendingRequests ?r (snd (onReceiveHandler (Parsed ?d) init_robot)))"
    by blast
  from th h1 h2 have e4: "current_emotion_aug2a (processSimpleTasks 100 (snd (handleReceiveRequest (Parsed ?d) init_aug2a)))
        = ''ANGRY''"
    by simp
  have pose: "targetPos (rightArmState (emotionPose ''angry''
                (init_robot\<lparr>pendingEmotion := False, pendingEmotionValue := '''',
                   current_sentiment := ''angry'', current_emotion := ''angry'',
                   emotion_mode_active := True, head_tracking_enabled := False,
                   emotion_mode_start := t_emotion ?r\<rparr>))) = 135"
    by code_simp
  from th h1 have "processPendingRequests_emotion ?r (snd (onReceiveHandler (Parsed ?d) init_robot))
            = emotionPose (toLowerCase (as_String ?v))
                (init_robot\<lparr>pendingEmotion := False, pendingEmotionValue := '''',
                   current_sentiment := toLowerCase (as_String ?v),
                   current_emotion := toLowerCase (as_String ?v),
                   emotion_mode_active := True, head_tracking_enabled := False,
                   emotion_mode_start := t_emotion ?r\<rparr>)"
    by blast
  then have e5: "targetPos (rightArmState (processPendingRequests_emotion ?r
                    (snd (onReceiveHandler (Parsed ?d) init_robot)))) = 135"
    using low pose by simp
  show ?thesis using h1 h2 e1 e2 e3 e4 e5 by blast
qed

lemma handlers_keep_head_axis:
  "headState (snd (onHeadHandler b s)) = headState s"
  "headState (snd (onHeadPositionHandler b s)) = headState s"
  by (simp_all add: onHeadHandler_def onHeadPositionHandler_def Let_def split: body.splits option.splits)

lemma head_position_ignored:
  "emotion_mode_active s \<Longrightarrow> snd (onHeadPositionHandler b s) = s"
  by (simp add: onHeadPositionHandler_def Let_def split: body.splits option.splits)

lemma head_request_refused:
  "emotion_mode_active_aug2a q \<Longrightarrow>
   handleHeadRequest b q = (Response 503 [(''status'', JStr ''blocked'')], q)"
  by (simp add: handleHeadRequest_def)

lemma head_task_waits:
  "emotion_mode_active_aug2a q \<Longrightarrow> processSimpleTasks_head q = q"
  by (simp add: processSimpleTasks_head_def)

text \<open>
  Claim C4, as stated, fails on \<^verbatim>\<open>handleHeadRequest\<close> of \<^verbatim>\<open>sketch_aug2a\<close>: once an
  emotion has been processed, a \<^verbatim>\<open>/head\<close> request is answered 503 and nothing is queued.
\<close>

theorem handleHeadRequest_refuses_in_emotion_mode:
  "emotion_mode_active_aug2a (processSimpleTasks 100 (snd (handleReceiveRequest
      (Parsed [''sentiment'' \<mapsto> \<lparr>as_int = 0, as_String = ''angry''\<rparr>]) init_aug2a)))
   \<and> status_code (fst (handleHeadRequest (Parsed [''angle'' \<mapsto> \<lparr>as_int = 100, as_String = ''100''\<rparr>])
        (processSimpleTasks 100 (snd (handleReceiveRequest
          (Parsed [''sentiment'' \<mapsto> \<lparr>as_int = 0, as_String = ''angry''\<rparr>]) init_aug2a))))) = 503
   \<and> \<not> has_head_task (currentTask (snd (handleHeadRequest (Parsed [''angle'' \<mapsto> \<lparr>as_int = 100, as_String = ''100''\<rparr>])
        (processSimpleTasks 100 (snd (handleReceiveRequest
          (Parsed [''sentiment'' \<mapsto> \<lparr>as_int = 0, as_String = ''angry''\<rparr>]) init_aug2a))))))"
  by code_simp

text \<open>
  Claim C4, amended. In the FastLED sketch a \<^verbatim>\<open>/head\<close> command is answered 200 and
  stored in the mailbox whether or not emotion mode is active; while emotion mode is
  active the head stage of \<^verbatim>\<open>processPendingRequests\<close> only empties the mailbox, so the
  command is discarded and the head axis stays as it was; no handler writes the head
  axis, and \<^verbatim>\<open>/head_position\<close> does not even queue in emotion mode. In \<^verbatim>\<open>sketch_aug2a\<close>
  a \<^verbatim>\<open>/head\<close> request in emotion mode is refused with 503 and changes nothing, and a
  head task queued earlier is left waiting by \<^verbatim>\<open>processSimpleTasks\<close>.
\<close>

theorem head_commands_gated_by_emotion_mode:
  "(d ''number'' = None \<and> d ''angle'' = Some v \<longrightarrow>
      onHeadHandler (Parsed d) s =
        (Response 200 [(''status'', JStr ''head_angle_queued''), (''angle'', JNum (as_int v))],
         s\<lparr>pendingHeadAngle := as_int v, pendingHeadNumber := -1, pendingHead := True\<rparr>))
   \<and> (emotion_mode_active s \<longrightarrow>
        processPendingRequests_head r s = snd (drainHead s)
        \<and> headState (processPendingRequests_head r s) = headState s
        \<and> pendingHead (processPendingRequests_head r s) = False)
   \<and> (emotion_mode_active (processPendingRequests_emotion r (processPendingRequests_reset r s)) \<longrightarrow>
        headState (processPendingRequests r s)
          = headState (processPendingRequests_emotion r (processPendingRequests_reset r s)))
   \<and> headState (snd (onHeadHandler b s)) = headState s
   \<and> headState (snd (onHeadPositionHandler b s)) = headState s
   \<and> (emotion_mode_active s \<longrightarrow> snd (onHeadPositionHandler b s) = s)
   \<and> (emotion_mode_active_aug2a q \<longrightarrow>
        handleHeadRequest b q = (Response 503 [(''status'', JStr ''blocked'')], q)
        \<and> processSimpleTasks_head q = q)"
proof (intro conjI impI; (elim conjE)?)
  assume "d ''number'' = None" "d ''angle'' = Some v"
  then show "onHeadHandler (Parsed d) s =
        (Response 200 [(''status'', JStr ''head_angle_queued''), (''angle'', JNum (as_int v))],
         s\<lparr>pendingHeadAngle := as_int v, pendingHeadNumber := -1, pendingHead := True\<rparr>)"
    by (simp add: onHeadHandler_def Let_def)
next
  assume e: "emotion_mode_active s"
  show "processPendingRequests_head r s = snd (drainHead s)" by (rule head_stage_blocked[OF e])
  then show "headState (processPendingRequests_head r s) = headState s" by (simp add: drainHead_headState)
  show "pendingHead (processPendingRequests_head r s) = False" by (rule head_stage_globals)
next
  assume e: "emotion_mode_active (processPendingRequests_emotion r (processPendingRequests_reset r s))"
  show "headState (processPendingRequests r s)
          = headState (processPendingRequests_emotion r (processPendingRequests_reset r s))"
    unfolding processPendingRequests_def head_stage_blocked[OF e] by (rule drainHead_headState)
next
  show "headState (snd (onHeadHandler b s)) = headState s" by (rule handlers_keep_head_axis)
  show "headState (snd (onHeadPositionHandler b s)) = headState s" by (rule handlers_keep_head_axis)
next
  assume "emotion_mode_active s"
  then show "snd (onHeadPositionHandler b s) = s" by (rule head_position_ignored)
next
  assume e: "emotion_mode_active_aug2a q"
  show "handleHeadRequest b q = (Response 503 [(''status'', JStr ''blocked'')], q)"
    by (rule head_request_refused[OF e])
  show "processSimpleTasks_head q = q" by (rule head_task_waits[OF e])
qed

theorem head_commands_gated_by_emotion_mode_witness:
  "[''angle'' \<mapsto> \<lparr>as_int = 100, as_String = ''100''\<rparr>] ''number'' = None
   \<and> [''angle'' \<mapsto> \<lparr>as_int = 100, as_String = ''100''\<rparr>] ''angle'' = Some \<lparr>as_int = 100, as_String = ''100''\<rparr>
   \<and> emotion_mode_active (snd (onHeadHandler (Parsed [''angle'' \<mapsto> \<lparr>as_int = 100, as_String = ''100''\<rparr>])
        (processPendingRequests \<lparr>t_ack = 10, t_elapsed = 10, t_emotion = 10, t_head = 10, rnd = 0, uninit = 0\<rparr>
          (snd (onReceiveHandler (Parsed [''sentiment'' \<mapsto> \<lparr>as_int = 0, as_String = ''sad''\<rparr>]) init_robot)))))
   \<and> pendingHeadAngle (snd (onHeadHandler (Parsed [''angle'' \<mapsto> \<lparr>as_int = 100, as_String = ''100''\<rparr>])
        (processPendingRequests \<lparr>t_ack = 10, t_elapsed = 10, t_emotion = 10, t_head = 10, rnd = 0, uninit = 0\<rparr>
          (snd (onReceiveHandler (Parsed [''sentiment'' \<mapsto> \<lparr>as_int = 0, as_String = ''sad''\<rparr>]) init_robot))))) = 100
   \<and> targetPos (headState (processPendingRequests_head \<lparr>t_ack = 10, t_elapsed = 10, t_emotion = 10, t_head = 10, rnd = 0, uninit = 0\<rparr>
        (snd (onHeadHandler (Parsed [''angle'' \<mapsto> \<lparr>as_int = 100, as_String = ''100''\<rparr>])
        (processPendingRequests \<lparr>t_ack = 10, t_elapsed = 10, t_emotion = 10, t_head = 10, rnd = 0, uninit = 0\<rparr>
          (snd (onReceiveHandler (Parsed [''sentiment'' \<mapsto> \<lparr>as_int = 0, as_String = ''sad''\<rparr>]) init_robot))))))) = 70
   \<and> emotion_mode_active_aug2a (processSimpleTasks 100 (snd (handleReceiveRequest
        (Parsed [''sentiment'' \<mapsto> \<lparr>as_int = 0, as_String = ''sad''\<rparr>]) init_aug2a)))
   \<and> status_code (fst (handleHeadRequest (Parsed [''angle'' \<mapsto> \<lparr>as_int = 100, as_String = ''100''\<rparr>])
        (processSimpleTasks 100 (snd (handleReceiveRequest
          (Parsed [''sentiment'' \<mapsto> \<lparr>as_int = 0, as_String = ''sad''\<rparr>]) init_aug2a))))) = 503"
proof -
  let ?a = "\<lparr>as_int = 100, as_String = ''100''\<rparr>"
  let ?d = "[''angle'' \<mapsto> ?a]"
  let ?r = "\<lparr>t_ack = 10, t_elapsed = 10, t_emotion = 10, t_head = 10, rnd = 0, uninit = 0\<rparr>"
  let ?s0 = "processPendingRequests ?r
          (snd (onReceiveHandler (Parsed [''sentiment'' \<mapsto> \<lparr>as_int = 0, as_String = ''sad''\<rparr>]) init_robot))"
  let ?s1 = "snd (onHeadHandler (Parsed ?d) ?s0)"
  let ?q0 = "processSimpleTasks 100 (snd (handleReceiveRequest
        (Parsed [''sentiment'' \<mapsto> \<lparr>as_int = 0, as_String = ''sad''\<rparr>]) init_aug2a))"
  have h1: "?d ''number'' = None \<and> ?d ''angle'' = Some ?a" by simp
  have h2: "emotion_mode_active ?s1" by code_simp
  have h3: "emotion_mode_active_aug2a ?q0" by code_simp
  have t70: "targetPos (headState ?s1) = 70" by code_simp
  note a = head_commands_gated_by_emotion_mode[where d = ?d and v = ?a and s = ?s0]
  note b = head_commands_gated_by_emotion_mode[where s = ?s1 and r = ?r and q = ?q0 and b = "Parsed ?d"]
  from a h1 have e1: "pendingHeadAngle ?s1 = 100" by simp
  from b h2 have "headState (processPendingRequests_head ?r ?s1) = headState ?s1" by blast
  then have e2: "targetPos (headState (processPendingRequests_head ?r ?s1)) = 70" using t70 by simp
  from b h3 have "handleHeadRequest (Parsed ?d) ?q0 = (Response 503 [(''status'', JStr ''blocked'')], ?q0)"
    by blast
  then have e3: "status_code (fst (handleHeadRequest (Parsed ?d) ?q0)) = 503" by simp
  show ?thesis using h1 h2 h3 e1 e2 e3 by blast
qed

lemma wrap_long_id: "- 2147483648 \<le> v \<Longrightarrow> v < 2147483648 \<Longrightarrow> wrap_long v = v"
  by (simp add: wrap_long_def)

lemma c_div_nonneg: "0 \<le> a \<Longrightarrow> 0 < b \<Longrightarrow> c_div a b = a div b"
  by (cases "a = 0") (simp_all add: c_div_def)

lemma arduino_map_head:
  assumes w: "0 < w" "w \<le> 23860929" and x: "0 \<le> x" "x \<le> w"
  shows "arduino_map x 0 w 45 135 = 45 + (x * 90) div w"
proof -
  have x90: "0 \<le> x * 90" "x * 90 < 2147483648" using w x by simp_all
  have q: "0 \<le> (x * 90) div w" "(x * 90) div w \<le> 90"
  proof -
    show "0 \<le> (x * 90) div w" using x90(1) w(1) by (simp add: pos_imp_zdiv_nonneg_iff)
    have "x * 90 \<le> 90 * w" using x by simp
    then have "(x * 90) div w \<le> (90 * w) div w" by (rule zdiv_mono1) (rule w(1))
    then show "(x * 90) div w \<le> 90" using w(1) by simp
  qed
  have run: "wrap_long (w - 0) = w" using w by (simp add: wrap_long_id)
  have rise: "wrap_long (135 - 45) = 90" by (simp add: wrap_long_def)
  have delta: "wrap_long (x - 0) = x" using w x by (simp add: wrap_long_id)
  have prod: "wrap_long (x * 90) = x * 90" using x90 by (simp add: wrap_long_id)
  have quot: "c_div (x * 90) w = (x * 90) div w" using x90(1) w(1) by (rule c_div_nonneg)
  have wq: "wrap_long ((x * 90) div w) = (x * 90) div w" using q by (simp add: wrap_long_id)
  have fin: "wrap_long ((x * 90) div w + 45) = (x * 90) div w + 45" using q by (simp add: wrap_long_id)
  show ?thesis
    unfolding arduino_map_def Let_def run rise delta prod quot wq fin using w(1) by simp
qed

section \<open>Properties that rest on the invariants of the runs\<close>

lemma run_inv_fields:
  "run_inv (s\<lparr>current_emotion := v1\<rparr>) = run_inv s"
  "run_inv (s\<lparr>current_sentiment := v2\<rparr>) = run_inv s"
  "run_inv (s\<lparr>emotion_mode_active := v3\<rparr>) = run_inv s"
  "run_inv (s\<lparr>head_tracking_enabled := v4\<rparr>) = run_inv s"
  "run_inv (s\<lparr>pendingEmotion := v5\<rparr>) = run_inv s"
  "run_inv (s\<lparr>pendingEmotionValue := v6\<rparr>) = run_inv s"
  "run_inv (s\<lparr>pendingHead := v7\<rparr>) = run_inv s"
  "run_inv (s\<lparr>pendingHeadNumber := v8\<rparr>) = run_inv s"
  "run_inv (s\<lparr>pendingHeadAngle := v9\<rparr>) = run_inv s"
  "run_inv (s\<lparr>pendingReset := v10\<rparr>) = run_inv s"
  "run_inv (s\<lparr>resetAcknowledged := v11\<rparr>) = run_inv s"
  "run_inv (s\<lparr>resetStartTime := v12\<rparr>) = run_inv s"
  "run_inv (s\<lparr>emotion_mode_start := v13\<rparr>) = run_inv s"
  "run_inv (s\<lparr>sweepLastMoveTime := v14\<rparr>) = run_inv s"
  "run_inv (s\<lparr>currentDirection := v15\<rparr>) = run_inv s"
  "run_inv (s\<lparr>movementSpeed := v16\<rparr>) = run_inv s"
  by (simp_all add: run_inv_def bounds_fixed_def arms_posed_def)

lemma moveServoSafely_bounds:
  "minPos (moveServoSafely st a) = minPos st" "maxPos (moveServoSafely st a) = maxPos st"
  by (simp_all add: moveServoSafely_def Let_def)

lemma moveServoSafely_exact:
  "minPos st \<le> a \<Longrightarrow> a \<le> maxPos st \<Longrightarrow>
   targetPos (moveServoSafely st a) = (if \<bar>targetPos st - a\<bar> > 2 then a else targetPos st)"
  by (simp add: moveServoSafely_def constrain_def Let_def)

lemma run_inv_head: "run_inv s \<Longrightarrow> run_inv (requestMove Head a s)"
  by (simp add: run_inv_def bounds_fixed_def arms_posed_def moveServoSafely_bounds)

lemma run_inv_leftArm:
  "run_inv s \<Longrightarrow> a \<in> {180, 90, 45, 120, 160} \<Longrightarrow> run_inv (requestMove LeftArm a s)"
  by (auto simp add: run_inv_def bounds_fixed_def arms_posed_def moveServoSafely_bounds moveServoSafely_exact)

lemma run_inv_rightArm:
  "run_inv s \<Longrightarrow> a \<in> {0, 90, 135, 60, 20} \<Longrightarrow> run_inv (requestMove RightArm a s)"
  by (auto simp add: run_inv_def bounds_fixed_def arms_posed_def moveServoSafely_bounds moveServoSafely_exact)

lemma run_inv_neutralPose: "run_inv s \<Longrightarrow> run_inv (neutralPose s)"
  by (simp add: neutralPose_def run_inv_head run_inv_leftArm run_inv_rightArm del: requestMove.simps)

lemma run_inv_emotionPose: "run_inv s \<Longrightarrow> run_inv (emotionPose e s)"
  by (simp add: emotionPose_def run_inv_head run_inv_leftArm run_inv_rightArm del: requestMove.simps)

lemma run_inv_personCountMove: "run_inv s \<Longrightarrow> run_inv (personCountMove r n s)"
  by (simp add: personCountMove_def Let_def run_inv_head run_inv_fields del: requestMove.simps split: prod.splits)

lemma run_inv_reset_stage: "run_inv s \<Longrightarrow> run_inv (processPendingRequests_reset r s)"
  by (simp add: processPendingRequests_reset_def drainReset_def Let_def run_inv_neutralPose run_inv_fields)

lemma run_inv_emotion_stage: "run_inv s \<Longrightarrow> run_inv (processPendingRequests_emotion r s)"
  by (simp add: processPendingRequests_emotion_def drainEmotion_def run_inv_emotionPose run_inv_fields)

lemma run_inv_head_stage: "run_inv s \<Longrightarrow> run_inv (processPendingRequests_head r s)"
  by (simp add: processPendingRequests_head_def drainHead_def Let_def run_inv_head
        run_inv_personCountMove run_inv_fields del: requestMove.simps)

lemma run_inv_tick: "run_inv s \<Longrightarrow> run_inv (processPendingRequests r s)"
  by (simp add: processPendingRequests_def run_inv_reset_stage run_inv_emotion_stage run_inv_head_stage)

lemma run_inv_servos: "run_inv s \<Longrightarrow> run_inv (updateServoPositions t s)"
  unfolding updateServoPositions_eq
  by (simp add: run_inv_def bounds_fixed_def arms_posed_def stepAxis_frame)

lemma run_inv_timeout: "run_inv s \<Longrightarrow> run_inv (loop_emotionTimeout now s)"
  by (simp add: loop_emotionTimeout_def run_inv_neutralPose run_inv_fields)

lemma run_inv_handlers:
  "run_inv (snd (onReceiveHandler b s)) = run_inv s"
  "run_inv (snd (onHeadHandler b s)) = run_inv s"
  "run_inv (snd (onHeadPositionHandler b s)) = run_inv s"
  "run_inv (snd (onResetHandler s)) = run_inv s"
  by (simp_all add: onReceiveHandler_def onHeadHandler_def onHeadPositionHandler_def onResetHandler_def
        Let_def run_inv_fields split: body.splits option.splits)

lemma run_inv_exec: "run_inv s \<Longrightarrow> run_inv (exec s e)"
  by (cases e) (simp_all add: run_inv_handlers run_inv_tick run_inv_servos run_inv_timeout)

lemma run_inv_foldl: "run_inv s \<Longrightarrow> run_inv (foldl exec s es)"
  by (induction es arbitrary: s) (simp_all add: run_inv_exec)

lemma run_inv_run: "run_inv (run es)"
  unfolding run_def by (rule run_inv_foldl) (simp add: run_inv_def bounds_fixed_def arms_posed_def init_robot_def)

lemma neutralPose_axes:
  "headState (neutralPose s) = moveServoSafely (headState s) 90"
  "leftArmState (neutralPose s) = moveServoSafely (leftArmState s) 180"
  "rightArmState (neutralPose s) = moveServoSafely (rightArmState s) 0"
  by (simp_all add: neutralPose_def)

lemma head_bounds_run: "minPos (headState (run es)) = 45" "maxPos (headState (run es)) = 135"
  using run_inv_run[of es] by (simp_all add: run_inv_def bounds_fixed_def)

lemma headPositionAngle_run:
  "0 < w \<Longrightarrow> w \<le> 23860929 \<Longrightarrow> 0 \<le> x \<Longrightarrow> x \<le> w \<Longrightarrow>
   headPositionAngle (run es) x w = 45 + (x * 90) div w"
  unfolding headPositionAngle_def head_bounds_run by (rule arduino_map_head)

text \<open>
  Claim C8, as stated, fails for an odd frame width: with \<^verbatim>\<open>frame_width\<close> 641 the
  pixel \<^verbatim>\<open>frame_width / 2\<close> is 320 in integer arithmetic and maps to 89, one below the
  midpoint angle 90.
\<close>

theorem head_position_odd_width_misses_midpoint:
  "headPositionAngle init_robot (641 div 2) 641 = 89
   \<and> (minPos (headState init_robot) + maxPos (headState init_robot)) div 2 = 90"
  by code_simp

text \<open>
  Claim C8, amended. For a frame width from 1 to 23860929 (so that 90 times the width
  fits a 32-bit \<^verbatim>\<open>long\<close>) the angle \<^verbatim>\<open>/head_position\<close> computes in any state of a run is
  \<open>minPos + x * (maxPos - minPos) div frame_width\<close> for \<open>0 \<le> x \<le> frame_width\<close>, the
  division truncating: \<open>x = 0\<close> gives \<^verbatim>\<open>minPos\<close> (45), \<open>x = frame_width\<close> gives
  \<^verbatim>\<open>maxPos\<close> (135), and a pixel with \<open>2 * x = frame_width\<close>, which exists only for an
  even width, gives the midpoint \<open>(minPos + maxPos) div 2\<close> (90). With tracking enabled
  and no emotion mode the handler queues exactly this angle.
\<close>

theorem head_position_maps_frame_linearly:
  "(0 < w \<and> w \<le> 23860929 \<longrightarrow>
      headPositionAngle (run es) 0 w = minPos (headState (run es))
      \<and> headPositionAngle (run es) w w = maxPos (headState (run es))
      \<and> (2 * x = w \<longrightarrow>
           headPositionAngle (run es) x w
             = (minPos (headState (run es)) + maxPos (headState (run es))) div 2)
      \<and> (0 \<le> x \<and> x \<le> w \<longrightarrow>
           headPositionAngle (run es) x w
             = minPos (headState (run es))
               + (x * (maxPos (headState (run es)) - minPos (headState (run es)))) div w))
   \<and> minPos (headState (run es)) = 45 \<and> maxPos (headState (run es)) = 135
   \<and> (d ''x'' = Some vx \<and> d ''frame_width'' = Some vw
        \<and> \<not> emotion_mode_active s \<and> head_tracking_enabled s \<longrightarrow>
      onHeadPositionHandler (Parsed d) s =
        (Response 200 [(''status'', JStr ''head_position_queued''),
                       (''angle'', JNum (headPositionAngle s (as_int vx) (as_int vw)))],
         s\<lparr>pendingHeadAngle := headPositionAngle s (as_int vx) (as_int vw),
           pendingHeadNumber := -1, pendingHead := True\<rparr>))"
proof (intro conjI impI; (elim conjE)?)
  assume w: "0 < w" "w \<le> 23860929"
  show "headPositionAngle (run es) 0 w = minPos (headState (run es))"
    using headPositionAngle_run[OF w, of 0 es] w by (simp add: head_bounds_run)
  show "headPositionAngle (run es) w w = maxPos (headState (run es))"
    using headPositionAngle_run[OF w, of w es] w by (simp add: head_bounds_run)
  {
    assume x: "2 * x = w"
    then have x0: "0 \<le> x" "x \<le> w" "0 < x" using w by simp_all
    have "(x * 90) div w = (x * 90) div (x * 2)" using x by (simp add: mult.commute)
    also have "\<dots> = 90 div 2" using x0(3) by simp
    finally have "(x * 90) div w = 45" by simp
    then show "headPositionAngle (run es) x w
             = (minPos (headState (run es)) + maxPos (headState (run es))) div 2"
      using headPositionAngle_run[OF w x0(1,2), of es] by (simp add: head_bounds_run)
  }
  {
    assume x: "0 \<le> x" "x \<le> w"
    show "headPositionAngle (run es) x w
             = minPos (headState (run es))
               + (x * (maxPos (headState (run es)) - minPos (headState (run es)))) div w"
      using headPositionAngle_run[OF w x, of es] by (simp add: head_bounds_run)
  }
next
  show "minPos (headState (run es)) = 45" by (rule head_bounds_run)
  show "maxPos (headState (run es)) = 135" by (rule head_bounds_run)
next
  assume "d ''x'' = Some vx" "d ''frame_width'' = Some vw"
         "\<not> emotion_mode_active s" "head_tracking_enabled s"
  then show "onHeadPositionHandler (Parsed d) s =
        (Response 200 [(''status'', JStr ''head_position_queued''),
                       (''angle'', JNum (headPositionAngle s (as_int vx) (as_int vw)))],
         s\<lparr>pendingHeadAngle := headPositionAngle s (as_int vx) (as_int vw),
           pendingHeadNumber := -1, pendingHead := True\<rparr>)"
    by (simp add: onHeadPositionHandler_def Let_def)
qed

theorem head_position_maps_frame_linearly_witness:
  "(0::int) < 640 \<and> (640::int) \<le> 23860929 \<and> 2 * (320::int) = 640
   \<and> headPositionAngle (run []) 0 640 = 45
   \<and> headPositionAngle (run []) 640 640 = 135
   \<and> headPositionAngle (run []) 320 640 = 90
   \<and> (0::int) \<le> 160 \<and> (160::int) \<le> 640
   \<and> headPositionAngle (run []) 160 640 = 67
   \<and> [''x'' \<mapsto> \<lparr>as_int = 320, as_String = ''320''\<rparr>, ''frame_width'' \<mapsto> \<lparr>as_int = 640, as_String = ''640''\<rparr>] ''x''
        = Some \<lparr>as_int = 320, as_String = ''320''\<rparr>
   \<and> \<not> emotion_mode_active init_robot \<and> head_tracking_enabled init_robot
   \<and> pendingHeadAngle (snd (onHeadPositionHandler
        (Parsed [''x'' \<mapsto> \<lparr>as_int = 320, as_String = ''320''\<rparr>,
                 ''frame_width'' \<mapsto> \<lparr>as_int = 640, as_String = ''640''\<rparr>]) init_robot))
        = headPositionAngle init_robot 320 640"
proof -
  let ?vx = "\<lparr>as_int = 320, as_String = ''320''\<rparr>"
  let ?vw = "\<lparr>as_int = 640, as_String = ''640''\<rparr>"
  let ?d = "[''x'' \<mapsto> ?vx, ''frame_width'' \<mapsto> ?vw]"
  have w: "(0::int) < 640 \<and> (640::int) \<le> 23860929" by simp
  have m: "2 * (320::int) = 640" by simp
  have x: "(0::int) \<le> 160 \<and> (160::int) \<le> 640" by simp
  have h: "?d ''x'' = Some ?vx \<and> ?d ''frame_width'' = Some ?vw
           \<and> \<not> emotion_mode_active init_robot \<and> head_tracking_enabled init_robot"
    by (simp add: init_robot_def)
  note a = head_position_maps_frame_linearly[where w = 640 and x = 320 and es = "[]" and d = ?d and vx = ?vx
             and vw = ?vw and s = init_robot]
  note b = head_position_maps_frame_linearly[where w = 640 and x = 160 and es = "[]"]
  from a w m have e1: "headPositionAngle (run []) 0 640 = 45" "headPositionAngle (run []) 640 640 = 135"
    "headPositionAngle (run []) 320 640 = 90"
    by simp_all
  from b w x have e2: "headPositionAngle (run []) 160 640 = 67" by simp
  from a h have e3: "pendingHeadAngle (snd (onHeadPositionHandler (Parsed ?d) init_robot))
        = headPositionAngle init_robot 320 640"
    by simp
  show ?thesis using w m x h e1 e2 e3 by blast
qed

lemma moveServoSafely_aug2a_bounds:
  "minPos (moveServoSafely_aug2a st a) = minPos st" "maxPos (moveServoSafely_aug2a st a) = maxPos st"
  by (simp_all add: moveServoSafely_aug2a_def Let_def)

lemma moveServoSafely_aug2a_exact:
  "minPos st \<le> a \<Longrightarrow> a \<le> maxPos st \<Longrightarrow>
   targetPos (moveServoSafely_aug2a st a) = (if \<bar>targetPos st - a\<bar> > 3 then a else targetPos st)"
  by (simp add: moveServoSafely_aug2a_def constrain_def Let_def)

lemma inv_aug2a_task:
  "inv_aug2a (s\<lparr>currentTask := t\<rparr>) = inv_aug2a s"
  "inv_aug2a (s\<lparr>server_busy := b\<rparr>) = inv_aug2a s"
  "inv_aug2a (s\<lparr>current_emotion_aug2a := e\<rparr>) = inv_aug2a s"
  "inv_aug2a (s\<lparr>head_tracking_enabled_aug2a := h\<rparr>) = inv_aug2a s"
  by (simp_all add: inv_aug2a_def)

lemma updateArmPose_eq:
  "updateArmPose s =
     s\<lparr>rightArmState_aug2a :=
         moveServoSafely_aug2a (rightArmState_aug2a s) (fst (armPose_aug2a (current_emotion_aug2a s))),
       leftArmState_aug2a :=
         moveServoSafely_aug2a (leftArmState_aug2a s) (snd (armPose_aug2a (current_emotion_aug2a s)))\<rparr>"
  by (simp add: updateArmPose_def armPose_aug2a_def Let_def)

lemma armPose_aug2a_range:
  "fst (armPose_aug2a e) \<in> {0, 90, 150}" "snd (armPose_aug2a e) \<in> {180, 90, 30}"
  "0 \<le> fst (armPose_aug2a e)" "fst (armPose_aug2a e) \<le> 180"
  "0 \<le> snd (armPose_aug2a e)" "snd (armPose_aug2a e) \<le> 180"
  by (simp_all add: armPose_aug2a_def)

lemma arm_target_stays:
  "minPos st \<le> a \<Longrightarrow> a \<le> maxPos st \<Longrightarrow> targetPos st \<in> S \<Longrightarrow> a \<in> S \<Longrightarrow>
   targetPos (moveServoSafely_aug2a st a) \<in> S"
  by (simp add: moveServoSafely_aug2a_exact)

lemma head_target_near_75:
  "minPos st = 60 \<Longrightarrow> maxPos st = 120 \<Longrightarrow>
   72 \<le> targetPos (moveServoSafely_aug2a st 75) \<and> targetPos (moveServoSafely_aug2a st 75) \<le> 78"
  by (simp add: moveServoSafely_aug2a_exact) arith

lemma inv_aug2a_arms:
  assumes i: "inv_aug2a s"
    and l: "leftArmState_aug2a s1 = leftArmState_aug2a s"
    and r: "rightArmState_aug2a s1 = rightArmState_aug2a s"
  shows "minPos (leftArmState_aug2a (updateArmPose s1)) = 0"
    and "maxPos (leftArmState_aug2a (updateArmPose s1)) = 180"
    and "minPos (rightArmState_aug2a (updateArmPose s1)) = 0"
    and "maxPos (rightArmState_aug2a (updateArmPose s1)) = 180"
    and "targetPos (leftArmState_aug2a (updateArmPose s1)) \<in> {180, 90, 30}"
    and "targetPos (rightArmState_aug2a (updateArmPose s1)) \<in> {0, 90, 150}"
proof -
  have b: "minPos (leftArmState_aug2a s) = 0" "maxPos (leftArmState_aug2a s) = 180"
          "minPos (rightArmState_aug2a s) = 0" "maxPos (rightArmState_aug2a s) = 180"
    and t: "targetPos (leftArmState_aug2a s) \<in> {180, 90, 30}"
           "targetPos (rightArmState_aug2a s) \<in> {0, 90, 150}"
    using i by (simp_all add: inv_aug2a_def)
  show "minPos (leftArmState_aug2a (updateArmPose s1)) = 0"
       "maxPos (leftArmState_aug2a (updateArmPose s1)) = 180"
       "minPos (rightArmState_aug2a (updateArmPose s1)) = 0"
       "maxPos (rightArmState_aug2a (updateArmPose s1)) = 180"
    unfolding updateArmPose_eq by (simp_all add: moveServoSafely_aug2a_bounds l r b)
  have "targetPos (moveServoSafely_aug2a (leftArmState_aug2a s) (snd (armPose_aug2a (current_emotion_aug2a s1))))
          \<in> {180, 90, 30}"
    using t(1) armPose_aug2a_range(2)[of "current_emotion_aug2a s1"]
    by (intro arm_target_stays) (simp_all add: b armPose_aug2a_range(3-6))
  then show "targetPos (leftArmState_aug2a (updateArmPose s1)) \<in> {180, 90, 30}"
    unfolding updateArmPose_eq by (simp add: l)
  have "targetPos (moveServoSafely_aug2a (rightArmState_aug2a s) (fst (armPose_aug2a (current_emotion_aug2a s1))))
          \<in> {0, 90, 150}"
    using t(2) armPose_aug2a_range(1)[of "current_emotion_aug2a s1"]
    by (intro arm_target_stays) (simp_all add: b armPose_aug2a_range(3-6))
  then show "targetPos (rightArmState_aug2a (updateArmPose s1)) \<in> {0, 90, 150}"
    unfolding updateArmPose_eq by (simp add: r)
qed

lemma inv_aug2a_enter_mode:
  assumes i: "inv_aug2a s"
    and h: "headState_aug2a s1 = headState_aug2a s"
    and l: "leftArmState_aug2a s1 = leftArmState_aug2a s"
    and r: "rightArmState_aug2a s1 = rightArmState_aug2a s"
  shows "inv_aug2a (moveHead_aug2a 75 (updateArmPose s1))"
proof -
  have b: "minPos (headState_aug2a s) = 60" "maxPos (headState_aug2a s) = 120"
    using i by (simp_all add: inv_aug2a_def)
  note near = head_target_near_75[OF b]
  have hd: "headState_aug2a (moveHead_aug2a 75 (updateArmPose s1)) = moveServoSafely_aug2a (headState_aug2a s) 75"
    by (simp add: moveHead_aug2a_def updateArmPose_globals h)
  show ?thesis
    unfolding inv_aug2a_def moveHead_aug2a_globals hd
    using near inv_aug2a_arms(5,6)[OF i l r]
    by (simp add: inv_aug2a_arms(1-4)[OF i l r] moveServoSafely_aug2a_bounds b)
qed

lemma inv_aug2a_leave:
  assumes i: "inv_aug2a s"
    and h: "headState_aug2a s1 = headState_aug2a s"
    and l: "leftArmState_aug2a s1 = leftArmState_aug2a s"
    and r: "rightArmState_aug2a s1 = rightArmState_aug2a s"
    and m: "\<not> emotion_mode_active_aug2a s1"
  shows "inv_aug2a (moveHead_aug2a a (updateArmPose s1))"
proof -
  have b: "minPos (headState_aug2a s) = 60" "maxPos (headState_aug2a s) = 120"
    using i by (simp_all add: inv_aug2a_def)
  have hd: "headState_aug2a (moveHead_aug2a a (updateArmPose s1)) = moveServoSafely_aug2a (headState_aug2a s) a"
    by (simp add: moveHead_aug2a_def updateArmPose_globals h)
  show ?thesis
    unfolding inv_aug2a_def moveHead_aug2a_globals hd
    using m inv_aug2a_arms(5,6)[OF i l r]
    by (simp add: inv_aug2a_arms(1-4)[OF i l r] moveServoSafely_aug2a_bounds b updateArmPose_globals)
qed

lemma inv_aug2a_emotion_stage: "inv_aug2a s \<Longrightarrow> inv_aug2a (processSimpleTasks_emotion t s)"
  by (simp add: processSimpleTasks_emotion_def Let_def inv_aug2a_task inv_aug2a_enter_mode)

lemma inv_aug2a_moveHead_free:
  "inv_aug2a s \<Longrightarrow> \<not> emotion_mode_active_aug2a s \<Longrightarrow> inv_aug2a (moveHead_aug2a a s)"
  by (simp add: inv_aug2a_def moveHead_aug2a_def moveServoSafely_aug2a_bounds)

lemma inv_aug2a_head_stage: "inv_aug2a s \<Longrightarrow> inv_aug2a (processSimpleTasks_head s)"
  by (simp add: processSimpleTasks_head_def Let_def inv_aug2a_task inv_aug2a_moveHead_free)

lemma inv_aug2a_exec: "inv_aug2a s \<Longrightarrow> inv_aug2a (exec_aug2a s e)"
proof (cases e)
  case (ReceiveRequest b)
  assume "inv_aug2a s"
  then show ?thesis unfolding ReceiveRequest
    by (simp add: handleReceiveRequest_def Let_def inv_aug2a_task split: body.splits option.splits)
next
  case (HeadRequest b)
  assume "inv_aug2a s"
  then show ?thesis unfolding HeadRequest
    by (simp add: handleHeadRequest_def Let_def inv_aug2a_task split: body.splits option.splits)
next
  case ResetRequest
  assume i: "inv_aug2a s"
  show ?thesis unfolding ResetRequest
    by (simp add: handleResetRequest_def inv_aug2a_leave[OF i])
next
  case (SimpleTasks t)
  assume "inv_aug2a s"
  then show ?thesis unfolding SimpleTasks
    by (simp add: processSimpleTasks_def inv_aug2a_emotion_stage inv_aug2a_head_stage)
next
  case (CheckTimeout t)
  assume i: "inv_aug2a s"
  show ?thesis unfolding CheckTimeout
    using i by (simp add: checkEmotionTimeout_def inv_aug2a_leave[OF i])
qed

lemma inv_aug2a_foldl: "inv_aug2a s \<Longrightarrow> inv_aug2a (foldl exec_aug2a s es)"
  by (induction es arbitrary: s) (simp_all add: inv_aug2a_exec)

lemma inv_aug2a_run: "inv_aug2a (run_aug2a es)"
  unfolding run_aug2a_def by (rule inv_aug2a_foldl) (simp add: inv_aug2a_def init_aug2a_def)

lemma timeout_fires:
  "emotion_mode_active s \<Longrightarrow> now - emotion_mode_start s > EMOTION_MODE_DURATION \<Longrightarrow>
   loop_emotionTimeout now s =
     neutralPose (s\<lparr>emotion_mode_active := False, head_tracking_enabled := True,
                     current_emotion := ''happy'', current_sentiment := ''happy''\<rparr>)"
  by (simp add: loop_emotionTimeout_def)

lemma timeout_aug2a_fires:
  "emotion_mode_active_aug2a q \<Longrightarrow> now - task_time (currentTask q) > 8000 \<Longrightarrow>
   checkEmotionTimeout now q =
     moveHead_aug2a 90 (updateArmPose (q\<lparr>emotion_mode_active_aug2a := False,
                                         head_tracking_enabled_aug2a := True,
                                         current_emotion_aug2a := ''happy''\<rparr>))"
  by (simp add: checkEmotionTimeout_def)

text \<open>
  Claim C5, as stated, fails on the head axis of the FastLED sketch. Two \<^verbatim>\<open>/head\<close>
  angles, 93 and then 88, leave the head target at 88; the emotion \<^verbatim>\<open>neutral\<close>, which
  has no row in the pose table, asks for 90 and is absorbed by the dead band of
  \<^verbatim>\<open>moveServoSafely\<close>; when the time-out fires, its request for 90 is absorbed too and
  the head target is still 88.
\<close>

theorem timeout_leaves_head_target_in_dead_band:
  "emotion_mode_active (run
      [PostHead (Parsed [''angle'' \<mapsto> \<lparr>as_int = 93, as_String = ''93''\<rparr>]),
       ProcessPendingRequests \<lparr>t_ack = 0, t_elapsed = 0, t_emotion = 0, t_head = 0, rnd = 0, uninit = 0\<rparr>,
       PostHead (Parsed [''angle'' \<mapsto> \<lparr>as_int = 88, as_String = ''88''\<rparr>]),
       ProcessPendingRequests \<lparr>t_ack = 0, t_elapsed = 0, t_emotion = 0, t_head = 0, rnd = 0, uninit = 0\<rparr>,
       PostReceive (Parsed [''sentiment'' \<mapsto> \<lparr>as_int = 0, as_String = ''neutral''\<rparr>]),
       ProcessPendingRequests \<lparr>t_ack = 1000, t_elapsed = 1000, t_emotion = 1000, t_head = 1000, rnd = 0, uninit = 0\<rparr>])
   \<and> 14000 - emotion_mode_start (run
      [PostHead (Parsed [''angle'' \<mapsto> \<lparr>as_int = 93, as_String = ''93''\<rparr>]),
       ProcessPendingRequests \<lparr>t_ack = 0, t_elapsed = 0, t_emotion = 0, t_head = 0, rnd = 0, uninit = 0\<rparr>,
       PostHead (Parsed [''angle'' \<mapsto> \<lparr>as_int = 88, as_String = ''88''\<rparr>]),
       ProcessPendingRequests \<lparr>t_ack = 0, t_elapsed = 0, t_emotion = 0, t_head = 0, rnd = 0, uninit = 0\<rparr>,
       PostReceive (Parsed [''sentiment'' \<mapsto> \<lparr>as_int = 0, as_String = ''neutral''\<rparr>]),
       ProcessPendingRequests \<lparr>t_ack = 1000, t_elapsed = 1000, t_emotion = 1000, t_head = 1000, rnd = 0, uninit = 0\<rparr>])
       > EMOTION_MODE_DURATION
   \<and> \<not> emotion_mode_active (loop_emotionTimeout 14000 (run
      [PostHead (Parsed [''angle'' \<mapsto> \<lparr>as_int = 93, as_String = ''93''\<rparr>]),
       ProcessPendingRequests \<lparr>t_ack = 0, t_elapsed = 0, t_emotion = 0, t_head = 0, rnd = 0, uninit = 0\<rparr>,
       PostHead (Parsed [''angle'' \<mapsto> \<lparr>as_int = 88, as_String = ''88''\<rparr>]),
       ProcessPendingRequests \<lparr>t_ack = 0, t_elapsed = 0, t_emotion = 0, t_head = 0, rnd = 0, uninit = 0\<rparr>,
       PostReceive (Parsed [''sentiment'' \<mapsto> \<lparr>as_int = 0, as_String = ''neutral''\<rparr>]),
       ProcessPendingRequests \<lparr>t_ack = 1000, t_elapsed = 1000, t_emotion = 1000, t_head = 1000, rnd = 0, uninit = 0\<rparr>]))
   \<and> targetPos (headState (loop_emotionTimeout 14000 (run
      [PostHead (Parsed [''angle'' \<mapsto> \<lparr>as_int = 93, as_String = ''93''\<rparr>]),
       ProcessPendingRequests \<lparr>t_ack = 0, t_elapsed = 0, t_emotion = 0, t_head = 0, rnd = 0, uninit = 0\<rparr>,
       PostHead (Parsed [''angle'' \<mapsto> \<lparr>as_int = 88, as_String = ''88''\<rparr>]),
       ProcessPendingRequests \<lparr>t_ack = 0, t_elapsed = 0, t_emotion = 0, t_head = 0, rnd = 0, uninit = 0\<rparr>,
       PostReceive (Parsed [''sentiment'' \<mapsto> \<lparr>as_int = 0, as_String = ''neutral''\<rparr>]),
       ProcessPendingRequests \<lparr>t_ack = 1000, t_elapsed = 1000, t_emotion = 1000, t_head = 1000, rnd = 0, uninit = 0\<rparr>]))) = 88"
  by code_simp

text \<open>
  Claim C5, amended. In every state of a run of the FastLED sketch in which emotion mode
  is active and \<open>now - emotion_mode_start\<close> exceeds \<^verbatim>\<open>EMOTION_MODE_DURATION\<close>, the
  time-out block of \<^verbatim>\<open>loop()\<close> clears emotion mode, enables head tracking, sets emotion
  and sentiment to \<^verbatim>\<open>happy\<close>, brings the arm targets to 180 and 0, and requests 90 for
  the head through \<^verbatim>\<open>moveServoSafely\<close>: the head target becomes 90 unless it is
  within 2 degrees of 90 already, in which case it stays. In every state of a run of
  \<^verbatim>\<open>sketch_aug2a\<close> in which emotion mode is active and more than 8000 ms have passed
  since the task time, \<^verbatim>\<open>checkEmotionTimeout\<close> clears emotion mode, enables head
  tracking, sets the emotion to \<^verbatim>\<open>happy\<close> and brings the targets to 90, 180 and 0.
\<close>

theorem emotion_timeout_restores_neutral:
  "(emotion_mode_active (run es) \<and> now - emotion_mode_start (run es) > EMOTION_MODE_DURATION \<longrightarrow>
      \<not> emotion_mode_active (loop_emotionTimeout now (run es))
      \<and> head_tracking_enabled (loop_emotionTimeout now (run es))
      \<and> current_emotion (loop_emotionTimeout now (run es)) = ''happy''
      \<and> current_sentiment (loop_emotionTimeout now (run es)) = ''happy''
      \<and> targetPos (leftArmState (loop_emotionTimeout now (run es))) = 180
      \<and> targetPos (rightArmState (loop_emotionTimeout now (run es))) = 0
      \<and> targetPos (headState (loop_emotionTimeout now (run es)))
          = (if \<bar>targetPos (headState (run es)) - 90\<bar> > 2 then 90 else targetPos (headState (run es)))
      \<and> \<bar>targetPos (headState (loop_emotionTimeout now (run es))) - 90\<bar> \<le> 2)
   \<and> (emotion_mode_active_aug2a (run_aug2a qs) \<and> now - task_time (currentTask (run_aug2a qs)) > 8000 \<longrightarrow>
      \<not> emotion_mode_active_aug2a (checkEmotionTimeout now (run_aug2a qs))
      \<and> head_tracking_enabled_aug2a (checkEmotionTimeout now (run_aug2a qs))
      \<and> current_emotion_aug2a (checkEmotionTimeout now (run_aug2a qs)) = ''happy''
      \<and> targetPos (headState_aug2a (checkEmotionTimeout now (run_aug2a qs))) = 90
      \<and> targetPos (leftArmState_aug2a (checkEmotionTimeout now (run_aug2a qs))) = 180
      \<and> targetPos (rightArmState_aug2a (checkEmotionTimeout now (run_aug2a qs))) = 0)"
proof (intro conjI impI; (elim conjE)?)
  assume a: "emotion_mode_active (run es)" "now - emotion_mode_start (run es) > EMOTION_MODE_DURATION"
  let ?s = "run es"
  let ?s' = "loop_emotionTimeout now ?s"
  note f = timeout_fires[OF a]
  have inv: "run_inv ?s" by (rule run_inv_run)
  have hb: "minPos (headState ?s) = 45" "maxPos (headState ?s) = 135"
    and lb: "minPos (leftArmState ?s) = 0" "maxPos (leftArmState ?s) = 180"
    and rb: "minPos (rightArmState ?s) = 0" "maxPos (rightArmState ?s) = 180"
    using inv by (simp_all add: run_inv_def bounds_fixed_def)
  have lt: "targetPos (leftArmState ?s) \<in> {180, 90, 45, 120, 160}"
    and rt: "targetPos (rightArmState ?s) \<in> {0, 90, 135, 60, 20}"
    using inv by (simp_all add: run_inv_def arms_posed_def)
  show "\<not> emotion_mode_active ?s'" unfolding f by (simp add: neutralPose_globals)
  show "head_tracking_enabled ?s'" unfolding f by (simp add: neutralPose_globals)
  show "current_emotion ?s' = ''happy''" unfolding f by (simp add: neutralPose_globals)
  show "current_sentiment ?s' = ''happy''" unfolding f by (simp add: neutralPose_globals)
  show "targetPos (leftArmState ?s') = 180"
    unfolding f neutralPose_axes using lt by (auto simp add: moveServoSafely_exact lb)
  show "targetPos (rightArmState ?s') = 0"
    unfolding f neutralPose_axes using rt by (auto simp add: moveServoSafely_exact rb)
  show h: "targetPos (headState ?s')
          = (if \<bar>targetPos (headState ?s) - 90\<bar> > 2 then 90 else targetPos (headState ?s))"
    unfolding f neutralPose_axes by (simp add: moveServoSafely_exact hb)
  show "\<bar>targetPos (headState ?s') - 90\<bar> \<le> 2" unfolding h by simp
next
  assume a: "emotion_mode_active_aug2a (run_aug2a qs)" "now - task_time (currentTask (run_aug2a qs)) > 8000"
  let ?q = "run_aug2a qs"
  let ?q1 = "?q\<lparr>emotion_mode_active_aug2a := False, head_tracking_enabled_aug2a := True,
                current_emotion_aug2a := ''happy''\<rparr>"
  let ?q' = "checkEmotionTimeout now ?q"
  note f = timeout_aug2a_fires[OF a]
  have inv: "inv_aug2a ?q" by (rule inv_aug2a_run)
  have hb: "minPos (headState_aug2a ?q) = 60" "maxPos (headState_aug2a ?q) = 120"
    and lb: "minPos (leftArmState_aug2a ?q) = 0" "maxPos (leftArmState_aug2a ?q) = 180"
    and rb: "minPos (rightArmState_aug2a ?q) = 0" "maxPos (rightArmState_aug2a ?q) = 180"
    using inv by (simp_all add: inv_aug2a_def)
  have lt: "targetPos (leftArmState_aug2a ?q) \<in> {180, 90, 30}"
    and rt: "targetPos (rightArmState_aug2a ?q) \<in> {0, 90, 150}"
    using inv by (simp_all add: inv_aug2a_def)
  have ht: "72 \<le> targetPos (headState_aug2a ?q)" "targetPos (headState_aug2a ?q) \<le> 78"
    using inv a(1) by (simp_all add: inv_aug2a_def)
  have pose: "armPose_aug2a (current_emotion_aug2a ?q1) = (0, 180)"
    by (simp add: armPose_aug2a_def)
  show "\<not> emotion_mode_active_aug2a ?q'"
    unfolding f by (simp add: moveHead_aug2a_globals updateArmPose_globals)
  show "head_tracking_enabled_aug2a ?q'"
    unfolding f by (simp add: moveHead_aug2a_globals updateArmPose_globals)
  show "current_emotion_aug2a ?q' = ''happy''"
    unfolding f by (simp add: moveHead_aug2a_globals updateArmPose_globals)
  show "targetPos (headState_aug2a ?q') = 90"
    unfolding f using ht by (simp add: moveHead_aug2a_def updateArmPose_globals moveServoSafely_aug2a_exact hb)
  show "targetPos (leftArmState_aug2a ?q') = 180"
    unfolding f moveHead_aug2a_globals updateArmPose_eq pose using lt
    by (auto simp add: moveServoSafely_aug2a_exact lb)
  show "targetPos (rightArmState_aug2a ?q') = 0"
    unfolding f moveHead_aug2a_globals updateArmPose_eq pose using rt
    by (auto simp add: moveServoSafely_aug2a_exact rb)
qed

theorem emotion_timeout_restores_neutral_witness:
  "emotion_mode_active (run
      [PostReceive (Parsed [''sentiment'' \<mapsto> \<lparr>as_int = 0, as_String = ''sad''\<rparr>]),
       ProcessPendingRequests \<lparr>t_ack = 1000, t_elapsed = 1000, t_emotion = 1000, t_head = 1000, rnd = 0, uninit = 0\<rparr>])
   \<and> 14000 - emotion_mode_start (run
      [PostReceive (Parsed [''sentiment'' \<mapsto> \<lparr>as_int = 0, as_String = ''sad''\<rparr>]),
       ProcessPendingRequests \<lparr>t_ack = 1000, t_elapsed = 1000, t_emotion = 1000, t_head = 1000, rnd = 0, uninit = 0\<rparr>])
       > EMOTION_MODE_DURATION
   \<and> targetPos (headState (run
      [PostReceive (Parsed [''sentiment'' \<mapsto> \<lparr>as_int = 0, as_String = ''sad''\<rparr>]),
       ProcessPendingRequests \<lparr>t_ack = 1000, t_elapsed = 1000, t_emotion = 1000, t_head = 1000, rnd = 0, uninit = 0\<rparr>])) = 70
   \<and> targetPos (headState (loop_emotionTimeout 14000 (run
      [PostReceive (Parsed [''sentiment'' \<mapsto> \<lparr>as_int = 0, as_String = ''sad''\<rparr>]),
       ProcessPendingRequests \<lparr>t_ack = 1000, t_elapsed = 1000, t_emotion = 1000, t_head = 1000, rnd = 0, uninit = 0\<rparr>]))) = 90
   \<and> targetPos (leftArmState (loop_emotionTimeout 14000 (run
      [PostReceive (Parsed [''sentiment'' \<mapsto> \<lparr>as_int = 0, as_String = ''sad''\<rparr>]),
       ProcessPendingRequests \<lparr>t_ack = 1000, t_elapsed = 1000, t_emotion = 1000, t_head = 1000, rnd = 0, uninit = 0\<rparr>]))) = 180
   \<and> current_emotion (loop_emotionTimeout 14000 (run
      [PostReceive (Parsed [''sentiment'' \<mapsto> \<lparr>as_int = 0, as_String = ''sad''\<rparr>]),
       ProcessPendingRequests \<lparr>t_ack = 1000, t_elapsed = 1000, t_emotion = 1000, t_head = 1000, rnd = 0, uninit = 0\<rparr>])) = ''happy''
   \<and> emotion_mode_active_aug2a (run_aug2a
      [ReceiveRequest (Parsed [''sentiment'' \<mapsto> \<lparr>as_int = 0, as_String = ''sad''\<rparr>]), SimpleTasks 1000])
   \<and> 10000 - task_time (currentTask (run_aug2a
      [ReceiveRequest (Parsed [''sentiment'' \<mapsto> \<lparr>as_int = 0, as_String = ''sad''\<rparr>]), SimpleTasks 1000])) > 8000
   \<and> targetPos (headState_aug2a (checkEmotionTimeout 10000 (run_aug2a
      [ReceiveRequest (Parsed [''sentiment'' \<mapsto> \<lparr>as_int = 0, as_String = ''sad''\<rparr>]), SimpleTasks 1000]))) = 90"
proof -
  let ?es = "[PostReceive (Parsed [''sentiment'' \<mapsto> \<lparr>as_int = 0, as_String = ''sad''\<rparr>]),
       ProcessPendingRequests \<lparr>t_ack = 1000, t_elapsed = 1000, t_emotion = 1000, t_head = 1000, rnd = 0, uninit = 0\<rparr>]"
  let ?qs = "[ReceiveRequest (Parsed [''sentiment'' \<mapsto> \<lparr>as_int = 0, as_String = ''sad''\<rparr>]), SimpleTasks 1000]"
  have h1: "emotion_mode_active (run ?es) \<and> 14000 - emotion_mode_start (run ?es) > EMOTION_MODE_DURATION"
    by code_simp
  have h2: "emotion_mode_active_aug2a (run_aug2a ?qs) \<and> 10000 - task_time (currentTask (run_aug2a ?qs)) > 8000"
    by code_simp
  have t70: "targetPos (headState (run ?es)) = 70" by code_simp
  note a = emotion_timeout_restores_neutral[where es = ?es and now = 14000]
  note b = emotion_timeout_restores_neutral[where qs = ?qs and now = 10000]
  from a h1 have "targetPos (headState (loop_emotionTimeout 14000 (run ?es)))
          = (if \<bar>targetPos (headState (run ?es)) - 90\<bar> > 2 then 90 else targetPos (headState (run ?es)))"
    by blast
  then have e1: "targetPos (headState (loop_emotionTimeout 14000 (run ?es))) = 90"
    unfolding t70 by simp
  from a h1 have e2: "targetPos (leftArmState (loop_emotionTimeout 14000 (run ?es))) = 180" by blast
  from a h1 have e3: "current_emotion (loop_emotionTimeout 14000 (run ?es)) = ''happy''" by blast
  from b h2 have e4: "targetPos (headState_aug2a (checkEmotionTimeout 10000 (run_aug2a ?qs))) = 90" by blast
  show ?thesis using h1 h2 t70 e1 e2 e3 e4 by blast
qed

text \<open>
  The time-out test is on an unsigned difference. \<^verbatim>\<open>loop()\<close> reads \<open>now\<close> before
  \<^verbatim>\<open>processPendingRequests\<close> stamps \<^verbatim>\<open>emotion_mode_start\<close>; if the clock has advanced in
  between, \<open>now - emotion_mode_start\<close> wraps around to a value above the duration and the
  emotion that was just applied is reset in the same iteration. With equal readings it
  stays.
\<close>

lemma loop_timeout_in_activating_iteration:
  "\<not> emotion_mode_active (loop 1000
       \<lparr>t_ack = 1000, t_elapsed = 1000, t_emotion = 1001, t_head = 1001, rnd = 0, uninit = 0\<rparr> 1001
       (snd (onReceiveHandler (Parsed [''sentiment'' \<mapsto> \<lparr>as_int = 0, as_String = ''angry''\<rparr>]) init_robot)))
   \<and> current_emotion (loop 1000
       \<lparr>t_ack = 1000, t_elapsed = 1000, t_emotion = 1001, t_head = 1001, rnd = 0, uninit = 0\<rparr> 1001
       (snd (onReceiveHandler (Parsed [''sentiment'' \<mapsto> \<lparr>as_int = 0, as_String = ''angry''\<rparr>]) init_robot)))
       = ''happy''
   \<and> emotion_mode_active (loop 1000
       \<lparr>t_ack = 1000, t_elapsed = 1000, t_emotion = 1000, t_head = 1000, rnd = 0, uninit = 0\<rparr> 1000
       (snd (onReceiveHandler (Parsed [''sentiment'' \<mapsto> \<lparr>as_int = 0, as_String = ''angry''\<rparr>]) init_robot)))"
  by code_simp

end
